theory Spec2Isabelle
  imports Main "HOL-Library.List_Lexorder" "HOL-Library.Char_ord"
begin

section \<open>Data model of the run ledger (src/src/runs.ts)\<close>

text \<open>
  Strings are lists of code units below 256. Timestamps are the strings that
  \<^verbatim>\<open>new Date().toISOString()\<close> returns; every function that reads the clock takes
  the value it reads as its argument \<open>now\<close>.
\<close>

datatype StepStatus = Pending | Running | Completed | Failed

datatype RunStatus = RunRunning | RunCompleted | RunFailed

text \<open>Interface \<^verbatim>\<open>StepMeta\<close>; an optional field is an option.\<close>

record StepMeta =
  name :: string
  status :: StepStatus
  startedAt :: "string option"
  completedAt :: "string option"
  artifact :: "string option"

text \<open>
  Interface \<^verbatim>\<open>RunMeta\<close>. The fields \<^verbatim>\<open>status\<close>, \<^verbatim>\<open>startedAt\<close> and
  \<^verbatim>\<open>completedAt\<close> carry the prefix \<open>run\<close> here, the names without prefix being
  those of \<open>StepMeta\<close>; \<open>run_echoId\<close> and \<open>run_error\<close> are \<^verbatim>\<open>echoId\<close> and
  \<^verbatim>\<open>error\<close>.
\<close>

record RunMeta =
  runId :: string
  runStatus :: RunStatus
  runStartedAt :: string
  runCompletedAt :: "string option"
  steps :: "StepMeta list"
  run_echoId :: "string option"
  run_error :: "string option"

text \<open>
  The object written to \<^verbatim>\<open>context.json\<close> (server.ts, both handlers).
  \<^verbatim>\<open>JSON.stringify\<close> leaves out a field whose value is \<^verbatim>\<open>undefined\<close>, so an
  absent field is \<open>None\<close>. The objects \<^verbatim>\<open>signals\<close> and \<^verbatim>\<open>source\<close> are only
  copied and tested for presence by this program; they are kept as their JSON text.
  The handlers always write \<^verbatim>\<open>context\<close> and \<^verbatim>\<open>depth\<close> when they have them; an
  object read back from a file may lack them too.
\<close>

record ContextArtifact =
  c_context :: "string option"
  c_depth :: "string option"
  c_focus :: "string option"
  c_intent :: "string option"
  c_signals :: "string option"
  c_scope :: "string option"
  c_source :: "string option"
  c_replayedFrom :: "string option"
  c_replayedStep :: "string option"

text \<open>
  A file of a run directory. \<^verbatim>\<open>JSON.stringify\<close> followed by \<^verbatim>\<open>JSON.parse\<close>
  gives back an object with the same fields for the two shapes this program
  serialises, so a JSON file is kept as the value it holds; any other content is
  \<open>Text\<close>.
\<close>

datatype content = MetaJson RunMeta | ContextJson ContextArtifact | Text string

text \<open>
  A directory is the list of its entries in the order \<^verbatim>\<open>readdirSync\<close> reports
  them. \<open>runs\<close> is \<^verbatim>\<open>.loretech/runs/\<close>: it maps a run id to the directory
  \<^verbatim>\<open>runs/{runId}/\<close>, \<open>None\<close> when that directory does not exist.
\<close>

type_synonym dir = "(string \<times> content) list"

type_synonym runs = "string \<Rightarrow> dir option"

text \<open>What a call can throw.\<close>

datatype exn =
    ENOENT
  | ENOTDIR
  | SyntaxError
  | TypeError string
  | IOError string
  | FetchError string

definition bindE :: "exn + 'a \<Rightarrow> ('a \<Rightarrow> exn + 'b) \<Rightarrow> exn + 'b" where
  "bindE r f = (case r of Inl e \<Rightarrow> Inl e | Inr x \<Rightarrow> f x)"

definition STEPS :: "string list" where
  "STEPS = [''context'', ''sources'', ''compose'', ''store'', ''record'', ''webset'']"

text \<open>JavaScript truthiness of a string, and of an optional string.\<close>

definition truthy :: "string \<Rightarrow> bool" where
  "truthy s = (s \<noteq> [])"

definition truthy_opt :: "string option \<Rightarrow> bool" where
  "truthy_opt v = (case v of None \<Rightarrow> False | Some s \<Rightarrow> truthy s)"

subsection \<open>Files of a directory\<close>

text \<open>\<^verbatim>\<open>fs.writeFileSync\<close> into a directory: an existing entry is overwritten in place.\<close>

fun put_file :: "string \<Rightarrow> 'a \<Rightarrow> (string \<times> 'a) list \<Rightarrow> (string \<times> 'a) list" where
  "put_file n f [] = [(n, f)]"
| "put_file n f ((m, g) # d) = (if m = n then (n, f) # d else (m, g) # put_file n f d)"

text \<open>\<^verbatim>\<open>fs.mkdirSync(dir, { recursive: true })\<close>: an existing directory is kept.\<close>

definition mkdirSync :: "string \<Rightarrow> runs \<Rightarrow> runs" where
  "mkdirSync rid fs = (case fs rid of None \<Rightarrow> fs(rid \<mapsto> []) | Some d \<Rightarrow> fs)"

text \<open>Writing a file of a run directory throws ENOENT when the directory is missing.\<close>

definition writeFileSync :: "string \<Rightarrow> string \<Rightarrow> content \<Rightarrow> runs \<Rightarrow> exn + runs" where
  "writeFileSync rid n f fs =
     (case fs rid of None \<Rightarrow> Inl ENOENT | Some d \<Rightarrow> Inr (fs(rid \<mapsto> put_file n f d)))"

subsection \<open>The functions of runs.ts\<close>

definition writeMeta :: "string \<Rightarrow> RunMeta \<Rightarrow> runs \<Rightarrow> exn + runs" where
  "writeMeta rid meta fs = writeFileSync rid ''meta.json'' (MetaJson meta) fs"

text \<open>
  \<^verbatim>\<open>readMeta\<close>: \<open>None\<close> when \<^verbatim>\<open>meta.json\<close> does not exist; \<^verbatim>\<open>JSON.parse\<close> throws
  on a file that does not hold a serialised record.
\<close>

definition readMeta :: "runs \<Rightarrow> string \<Rightarrow> exn + RunMeta option" where
  "readMeta fs rid =
     (case fs rid of
        None \<Rightarrow> Inr None
      | Some d \<Rightarrow>
          (case map_of d ''meta.json'' of
             None \<Rightarrow> Inr None
           | Some (MetaJson m) \<Rightarrow> Inr (Some m)
           | Some _ \<Rightarrow> Inl SyntaxError))"

definition initialMeta :: "string \<Rightarrow> string \<Rightarrow> RunMeta" where
  "initialMeta now rid =
     \<lparr> runId = rid, runStatus = RunRunning, runStartedAt = now, runCompletedAt = None,
       steps = map (\<lambda>n. \<lparr> name = n, status = Pending, startedAt = None,
                           completedAt = None, artifact = None \<rparr>) STEPS,
       run_echoId = None, run_error = None \<rparr>"

definition createRun :: "string \<Rightarrow> string \<Rightarrow> runs \<Rightarrow> exn + (runs \<times> RunMeta)" where
  "createRun now rid fs =
     (let meta = initialMeta now rid
      in bindE (writeMeta rid meta (mkdirSync rid fs)) (\<lambda>fs'. Inr (fs', meta)))"

definition writeArtifact :: "string \<Rightarrow> string \<Rightarrow> content \<Rightarrow> runs \<Rightarrow> exn + runs" where
  "writeArtifact rid filename content fs = writeFileSync rid filename content fs"

definition readArtifact :: "runs \<Rightarrow> string \<Rightarrow> string \<Rightarrow> content option" where
  "readArtifact fs rid filename =
     (case fs rid of None \<Rightarrow> None | Some d \<Rightarrow> map_of d filename)"

text \<open>
  \<^verbatim>\<open>meta.steps.find(...)\<close> returns the first step with the name; the step is then
  mutated in place.
\<close>

fun replace_first :: "string \<Rightarrow> StepMeta \<Rightarrow> StepMeta list \<Rightarrow> StepMeta list" where
  "replace_first n s' [] = []"
| "replace_first n s' (s # ss) = (if name s = n then s' # ss else s # replace_first n s' ss)"

definition touchStep :: "string \<Rightarrow> StepStatus \<Rightarrow> string option \<Rightarrow> StepMeta \<Rightarrow> StepMeta" where
  "touchStep now st art step =
     (let s1 = step\<lparr> status := st \<rparr>;
          s2 = (if st = Running then s1\<lparr> startedAt := Some now \<rparr> else s1);
          s3 = (if st = Completed \<or> st = Failed then s2\<lparr> completedAt := Some now \<rparr> else s2)
      in if truthy_opt art then s3\<lparr> artifact := art \<rparr> else s3)"

definition updateStep ::
  "string \<Rightarrow> string \<Rightarrow> string \<Rightarrow> StepStatus \<Rightarrow> string option \<Rightarrow> runs \<Rightarrow> exn + runs" where
  "updateStep now rid stepName st art fs =
     bindE (readMeta fs rid) (\<lambda>r.
       case r of
         None \<Rightarrow> Inr fs
       | Some meta \<Rightarrow>
           (case find (\<lambda>s. name s = stepName) (steps meta) of
              None \<Rightarrow> Inr fs
            | Some step \<Rightarrow>
                writeMeta rid
                  (meta\<lparr> steps := replace_first stepName (touchStep now st art step) (steps meta) \<rparr>)
                  fs))"

text \<open>The argument \<^verbatim>\<open>result\<close> of \<^verbatim>\<open>completeRun\<close>.\<close>

record RunResult =
  res_echoId :: "string option"
  res_error :: "string option"

definition finishMeta :: "string \<Rightarrow> RunResult \<Rightarrow> RunMeta \<Rightarrow> RunMeta" where
  "finishMeta now res meta =
     (let m1 = meta\<lparr> runStatus := (if truthy_opt (res_error res) then RunFailed else RunCompleted) \<rparr>;
          m2 = m1\<lparr> runCompletedAt := Some now \<rparr>;
          m3 = (if truthy_opt (res_echoId res) then m2\<lparr> run_echoId := res_echoId res \<rparr> else m2)
      in if truthy_opt (res_error res) then m3\<lparr> run_error := res_error res \<rparr> else m3)"

definition completeRun :: "string \<Rightarrow> string \<Rightarrow> RunResult \<Rightarrow> runs \<Rightarrow> exn + runs" where
  "completeRun now rid res fs =
     bindE (readMeta fs rid) (\<lambda>r.
       case r of
         None \<Rightarrow> Inr fs
       | Some meta \<Rightarrow> writeMeta rid (finishMeta now res meta) fs)"

text \<open>A sequence of \<^verbatim>\<open>completeRun\<close> calls on one run, each with the time it reads.\<close>

fun completeAll :: "(string \<times> RunResult) list \<Rightarrow> string \<Rightarrow> runs \<Rightarrow> exn + runs" where
  "completeAll [] rid fs = Inr fs"
| "completeAll ((now, res) # cs) rid fs =
     bindE (completeRun now rid res fs) (\<lambda>fs'. completeAll cs rid fs')"

text \<open>
  The state machine of a step in the words of the specification:
  pending to running, running to completed or failed, and nothing else.
\<close>

fun legal_successor :: "StepStatus \<Rightarrow> StepStatus \<Rightarrow> bool" where
  "legal_successor Pending Running = True"
| "legal_successor Running Completed = True"
| "legal_successor Running Failed = True"
| "legal_successor _ _ = False"

text \<open>The status of the first step with a name in the stored record, if any.\<close>

definition stepStatus :: "runs \<Rightarrow> string \<Rightarrow> string \<Rightarrow> StepStatus option" where
  "stepStatus fs rid stepName =
     (case readMeta fs rid of
        Inr (Some meta) \<Rightarrow> map_option status (find (\<lambda>s. name s = stepName) (steps meta))
      | _ \<Rightarrow> None)"

section \<open>Concrete stores used in the examples\<close>

definition orEmpty :: "exn + runs \<Rightarrow> runs" where
  "orEmpty r = (case r of Inl e \<Rightarrow> (\<lambda>x. None) | Inr fs \<Rightarrow> fs)"

text \<open>The store after \<^verbatim>\<open>createRun("r1")\<close> at time \<open>t0\<close> on an empty runs directory.\<close>

definition store_created :: runs where
  "store_created = orEmpty (map_sum id fst (createRun ''t0'' ''r1'' (\<lambda>x. None)))"

text \<open>That store after step 1 of the pipeline: the context step ran and completed.\<close>

definition store_ctx_done :: runs where
  "store_ctx_done =
     orEmpty (bindE (updateStep ''t1'' ''r1'' ''context'' Running None store_created) (\<lambda>fs.
              bindE (writeArtifact ''r1'' ''context.json'' (Text ''A'') fs)
                (updateStep ''t2'' ''r1'' ''context'' Completed (Some ''context.json''))))"

text \<open>The record a store holds for a run after an operation, if there is one.\<close>

definition finalMeta :: "exn + runs \<Rightarrow> string \<Rightarrow> RunMeta option" where
  "finalMeta r rid =
     (case r of Inl e \<Rightarrow> None
      | Inr fs \<Rightarrow> (case readMeta fs rid of Inr (Some m) \<Rightarrow> Some m | _ \<Rightarrow> None))"

section \<open>The echo catalog (memory.ts, src/unnamed/part_000)\<close>

text \<open>The line feed, the double quote and the backslash.\<close>

definition NL :: char where
  "NL = CHR 0x0A"

definition DQ :: char where
  "DQ = CHR 0x22"

definition BSL :: char where
  "BSL = CHR 0x5C"

text \<open>Line terminators (what \<^verbatim>\<open>.\<close> does not match) and \<^verbatim>\<open>\s\<close>, among the code units below 256.\<close>

definition isLineTerminator :: "char \<Rightarrow> bool" where
  "isLineTerminator c = (c = CHR 0x0A \<or> c = CHR 0x0D)"

definition isSpace :: "char \<Rightarrow> bool" where
  "isSpace c = (c = CHR 0x09 \<or> c = CHR 0x0A \<or> c = CHR 0x0B \<or> c = CHR 0x0C \<or> c = CHR 0x0D
                \<or> c = CHR 0x20 \<or> c = CHR 0xA0)"

definition startsWith :: "string \<Rightarrow> string \<Rightarrow> bool" where
  "startsWith s p = (take (length p) s = p)"

definition endsWith :: "string \<Rightarrow> string \<Rightarrow> bool" where
  "endsWith s p = (length p \<le> length s \<and> drop (length s - length p) s = p)"

text \<open>First index at which \<open>needle\<close> occurs.\<close>

fun index_of :: "string \<Rightarrow> string \<Rightarrow> nat option" where
  "index_of needle [] = (if needle = [] then Some 0 else None)"
| "index_of needle (c # cs) =
     (if startsWith (c # cs) needle then Some 0 else map_option Suc (index_of needle cs))"

text \<open>\<^verbatim>\<open>s.indexOf(needle, from)\<close>, \<open>None\<close> for -1.\<close>

definition indexOf :: "string \<Rightarrow> string \<Rightarrow> nat \<Rightarrow> nat option" where
  "indexOf s needle from = map_option (\<lambda>i. i + from) (index_of needle (drop from s))"

text \<open>\<^verbatim>\<open>s.trim()\<close>.\<close>

definition trim :: "string \<Rightarrow> string" where
  "trim s = rev (dropWhile isSpace (rev (dropWhile isSpace s)))"

text \<open>\<^verbatim>\<open>s.replace(/^"|"$/g, "")\<close>: one quote off the start, one off the end.\<close>

definition stripQuotes :: "string \<Rightarrow> string" where
  "stripQuotes s =
     (let s1 = (case s of [] \<Rightarrow> [] | c # cs \<Rightarrow> if c = DQ then cs else s)
      in if s1 \<noteq> [] \<and> last s1 = DQ then butlast s1 else s1)"

text \<open>\<^verbatim>\<open>s.replace(/"/g, '\\"')\<close>: a backslash before every quote.\<close>

definition escapeQuotes :: "string \<Rightarrow> string" where
  "escapeQuotes s = concat (map (\<lambda>c. if c = DQ then [BSL, DQ] else [c]) s)"

text \<open>\<^verbatim>\<open>lines.join("\n")\<close>.\<close>

fun joinLines :: "string list \<Rightarrow> string" where
  "joinLines [] = []"
| "joinLines [l] = l"
| "joinLines (l # ls) = l @ NL # joinLines ls"

text \<open>
  The match of \<^verbatim>\<open>/^---\n([\s\S]*?)\n---/\<close> against the content: its group 1. The
  lazy group ends at the first \<^verbatim>\<open>\n---\<close> after the opening line.
\<close>

definition fmMatch :: "string \<Rightarrow> string option" where
  "fmMatch content =
     (if startsWith content (''---'' @ [NL])
      then map_option (\<lambda>k. take k (drop 4 content)) (index_of (NL # ''---'') (drop 4 content))
      else None)"

text \<open>
  \<^verbatim>\<open>\s*(.+)$\<close> with the flag m, matched at the text \<open>r\<close> that follows \<^verbatim>\<open>key:\<close>; the
  result is group 1. The greedy \<^verbatim>\<open>\s*\<close> first takes all the white space, line
  terminators included; \<^verbatim>\<open>(.+)$\<close> then takes the rest of the line it stands on.
  When nothing but white space follows, \<^verbatim>\<open>\s*\<close> gives characters back until
  \<^verbatim>\<open>.+\<close> finds one that is no line terminator.
\<close>

definition capture :: "string \<Rightarrow> string option" where
  "capture r =
     (let ws = takeWhile isSpace r; rest = dropWhile isSpace r
      in if rest \<noteq> [] then Some (takeWhile (\<lambda>c. \<not> isLineTerminator c) rest)
         else (case rev (filter (\<lambda>c. \<not> isLineTerminator c) ws) of
                 [] \<Rightarrow> None
               | c # _ \<Rightarrow> Some [c]))"

definition matchAt :: "string \<Rightarrow> string \<Rightarrow> string option" where
  "matchAt key s =
     (if startsWith s (key @ '':'') then capture (drop (length key + 1) s) else None)"

text \<open>
  \<^verbatim>\<open>fm.match(new RegExp(`^${key}:\\s*(.+)$`, "m"))\<close>: the leftmost match; \<^verbatim>\<open>^\<close> holds
  at the start of \<open>fm\<close> and after a line terminator (\<open>bol\<close>).
\<close>

fun search :: "string \<Rightarrow> bool \<Rightarrow> string \<Rightarrow> string option" where
  "search key bol [] = None"
| "search key bol (c # cs) =
     (case (if bol then matchAt key (c # cs) else None) of
        Some cap \<Rightarrow> Some cap
      | None \<Rightarrow> search key (isLineTerminator c) cs)"

text \<open>The closure \<^verbatim>\<open>get\<close> of \<^verbatim>\<open>parseEchoRef\<close>.\<close>

definition get :: "string \<Rightarrow> string \<Rightarrow> string" where
  "get fm key =
     (case search key True fm of None \<Rightarrow> [] | Some cap \<Rightarrow> trim (stripQuotes cap))"

text \<open>
  Interface \<^verbatim>\<open>EchoRef\<close>; \<open>ref_echoId\<close> and \<open>ref_status\<close> are its fields
  \<^verbatim>\<open>echoId\<close> and \<^verbatim>\<open>status\<close>.
\<close>

record EchoRef =
  ref_echoId :: string
  privateKey :: string
  title :: string
  ref_status :: string
  createdAt :: string
  updatedAt :: string
  markdown :: string
  jsonPath :: "string option"

text \<open>
  \<^verbatim>\<open>parseEchoRef\<close>; \<open>None\<close> is \<^verbatim>\<open>null\<close>. The two tests of
  \<^verbatim>\<open>if (!echoId || !privateKey) return null\<close> are made one after the other.
  \<^verbatim>\<open>content.indexOf("\n", bodyStart)\<close> may be -1; the body then starts at index 0.
\<close>

definition parseEchoRef :: "string \<Rightarrow> EchoRef option" where
  "parseEchoRef content =
     (case fmMatch content of
        None \<Rightarrow> None
      | Some fm \<Rightarrow>
          (let echoId = get fm ''echoId''; privateKey = get fm ''privateKey''
           in if \<not> truthy echoId then None
              else if \<not> truthy privateKey then None
              else
                (let md = (case indexOf content ''---'' 4 of
                             None \<Rightarrow> []
                           | Some bodyStart \<Rightarrow>
                               trim (drop (case indexOf content [NL] bodyStart of
                                             None \<Rightarrow> 0 | Some i \<Rightarrow> i + 1) content))
                 in Some \<lparr> ref_echoId = echoId, privateKey = privateKey,
                           title = get fm ''title'',
                           ref_status = (if truthy (get fm ''status'') then get fm ''status''
                                         else ''draft''),
                           createdAt = get fm ''createdAt'',
                           updatedAt = get fm ''updatedAt'',
                           markdown = md, jsonPath = None \<rparr>)))"

text \<open>
  \<^verbatim>\<open>.loretech/echoes/\<close>: the list of its files with their text, \<open>None\<close> when the
  directory does not exist.
\<close>

type_synonym echoes = "(string \<times> string) list option"

definition ensureEchoesDir :: "echoes \<Rightarrow> (string \<times> string) list" where
  "ensureEchoesDir es = (case es of None \<Rightarrow> [] | Some d \<Rightarrow> d)"

text \<open>
  The text \<^verbatim>\<open>writeEchoRef\<close> writes to \<^verbatim>\<open>{echoId}.md\<close>.
\<close>

definition echoFile :: "EchoRef \<Rightarrow> bool \<Rightarrow> string" where
  "echoFile ref hasDataset =
     (let frontmatter = joinLines
            ([''---'',
              ''echoId: '' @ ref_echoId ref,
              ''privateKey: '' @ privateKey ref,
              ''title: '' @ [DQ] @ escapeQuotes (title ref) @ [DQ],
              ''status: '' @ ref_status ref,
              ''createdAt: '' @ createdAt ref,
              ''updatedAt: '' @ updatedAt ref]
             @ (if hasDataset
                then [''dataset: '' @ [DQ] @ ''[['' @ ref_echoId ref @ ''.json]]'' @ [DQ]]
                else [])
             @ [''---''])
      in if truthy (markdown ref)
         then frontmatter @ [NL, NL] @ markdown ref @ [NL]
         else frontmatter @ [NL])"

text \<open>
  \<^verbatim>\<open>writeEchoRef(ref, dataset)\<close>; \<open>dataset\<close> is the JSON text of the data set when one
  is passed (and truthy).
\<close>

definition writeEchoRef :: "EchoRef \<Rightarrow> string option \<Rightarrow> echoes \<Rightarrow> echoes" where
  "writeEchoRef ref dataset es =
     (let d1 = put_file (ref_echoId ref @ ''.md'') (echoFile ref (dataset \<noteq> None))
                 (ensureEchoesDir es)
      in case dataset of
           None \<Rightarrow> Some d1
         | Some json \<Rightarrow> Some (put_file (ref_echoId ref @ ''.json'') json d1))"

text \<open>
  \<^verbatim>\<open>Array.prototype.sort\<close> with a comparator is stable; it is modelled as the
  stable insertion sort. \<^verbatim>\<open>String.prototype.localeCompare\<close> is the parameter
  \<open>localeCompare\<close>.
\<close>

fun insertBy :: "('a \<Rightarrow> 'a \<Rightarrow> int) \<Rightarrow> 'a \<Rightarrow> 'a list \<Rightarrow> 'a list" where
  "insertBy cmp x [] = [x]"
| "insertBy cmp x (y # ys) = (if cmp x y \<le> 0 then x # y # ys else y # insertBy cmp x ys)"

definition sortBy :: "('a \<Rightarrow> 'a \<Rightarrow> int) \<Rightarrow> 'a list \<Rightarrow> 'a list" where
  "sortBy cmp xs = foldr (insertBy cmp) xs []"

text \<open>
  The loop of \<^verbatim>\<open>readEchoRefs\<close> over the files of the directory \<open>d\<close>. The path of
  the companion file is kept as its name in the directory.
\<close>

fun collectRefs :: "(string \<times> string) list \<Rightarrow> (string \<times> string) list \<Rightarrow> EchoRef list" where
  "collectRefs d [] = []"
| "collectRefs d ((file, content) # rest) =
     (if \<not> endsWith file ''.md'' then collectRefs d rest
      else (case parseEchoRef content of
              None \<Rightarrow> collectRefs d rest
            | Some ref \<Rightarrow>
                (if map_of d (ref_echoId ref @ ''.json'') \<noteq> None
                 then ref\<lparr> jsonPath := Some (ref_echoId ref @ ''.json'') \<rparr>
                 else ref) # collectRefs d rest))"

definition readEchoRefs :: "(string \<Rightarrow> string \<Rightarrow> int) \<Rightarrow> echoes \<Rightarrow> EchoRef list" where
  "readEchoRefs localeCompare es =
     (let d = ensureEchoesDir es
      in sortBy (\<lambda>a b. localeCompare (updatedAt b) (updatedAt a)) (collectRefs d d))"

text \<open>The reference of the test \<^verbatim>\<open>handles title with quotes\<close> of memory.test.ts.\<close>

definition quotesRef :: EchoRef where
  "quotesRef = \<lparr> ref_echoId = ''echo-quotes'', privateKey = ''pk_xyz'',
                 title = ''Title with '' @ [DQ] @ ''quotes'' @ [DQ] @ '' inside'',
                 ref_status = ''published'',
                 createdAt = ''2026-02-26T00:00:00Z'', updatedAt = ''2026-02-26T00:00:00Z'',
                 markdown = [], jsonPath = None \<rparr>"

text \<open>A reference whose status is the empty string.\<close>

definition emptyStatusRef :: EchoRef where
  "emptyStatusRef = \<lparr> ref_echoId = ''echo-1'', privateKey = ''pk_1'', title = ''T'',
                     ref_status = [],
                     createdAt = ''2026-02-26T00:00:00Z'', updatedAt = ''2026-02-27T00:00:00Z'',
                     markdown = ''body'', jsonPath = None \<rparr>"

section \<open>The tool handlers (src/src/server.ts)\<close>

text \<open>
  The world the handlers act on: the runs directory, the echoes directory, the
  requests sent to the engine so far, and the background polls that were started
  (\<^verbatim>\<open>pollWebsetDataset(echoId, privateKey, runId, exaKey)\<close>, kept as echo id and run id).
\<close>

record EngineRequest =
  b_context :: "string option"
  b_depth :: "string option"
  b_focus :: "string option"
  b_intent :: "string option"
  b_signals :: "string option"
  b_scope :: "string option"
  b_source :: "string option"
  b_echoId :: "string option"
  b_model :: "string option"
  authorization :: "string option"

record world =
  w_runs :: runs
  w_echoes :: echoes
  w_sent :: "EngineRequest list"
  w_timers :: "(string \<times> string) list"

text \<open>
  The parsed reply of the engine. A field the handlers dereference
  (\<^verbatim>\<open>title.replace\<close>, \<^verbatim>\<open>tags.length\<close>, \<^verbatim>\<open>sources.length\<close>) or hand to
  \<^verbatim>\<open>writeFileSync\<close> (\<^verbatim>\<open>markdown\<close>, the serialised \<^verbatim>\<open>sources\<close>) is an option:
  \<open>None\<close> is a reply without it, where the handler throws a TypeError.
  \<open>d_sources\<close> holds the JSON text of each source.
\<close>

record EngineData =
  d_echoId :: string
  d_status :: string
  d_title :: "string option"
  d_subtitle :: "string option"
  d_markdown :: "string option"
  d_tags :: "string list option"
  d_sources :: "string list option"
  d_privateUrl :: string
  d_privateKey :: string
  d_createdAt :: string
  d_updatedAt :: string
  d_websetId :: "string option"
  d_websetStatus :: "string option"

text \<open>
  What a call of the engine does: \<^verbatim>\<open>fetch\<close> rejects (network error, timeout); a
  reply that is not ok, with its status (as printed) and body text; such a reply whose
  body cannot be read; an ok reply whose body is no JSON; an ok reply with its data.
\<close>

datatype Response =
    FetchThrows string
  | NotOk string string
  | NotOkNoText string string
  | OkNoJson string
  | OkData EngineData

text \<open>The three keys \<^verbatim>\<open>loadEnv\<close> reads from \<^verbatim>\<open>.loretech/.env\<close>.\<close>

record Env =
  LORETECH_API_KEY :: "string option"
  OPENROUTER_API_KEY :: "string option"
  EXA_API_KEY :: "string option"

definition keysPresent :: "Env \<Rightarrow> bool" where
  "keysPresent env =
     (truthy_opt (LORETECH_API_KEY env) \<and> truthy_opt (OPENROUTER_API_KEY env)
      \<and> truthy_opt (EXA_API_KEY env))"

text \<open>The arguments of \<^verbatim>\<open>loretech_echo\<close> (schema \<^verbatim>\<open>echoInputSchema\<close>).\<close>

record EchoArgs =
  a_context :: string
  a_depth :: string
  a_focus :: "string option"
  a_intent :: "string option"
  a_signals :: "string option"
  a_scope :: "string option"
  a_source :: "string option"
  a_echoId :: "string option"
  a_model :: "string option"

text \<open>
  What a handler hands back to its caller. The text of a reply is not modelled, only
  which reply it is and the data it is built from; \<open>isError\<close> is its flag.
\<close>

datatype ToolResult =
    MissingKeys
  | EngineFailure string string
  | Created EngineData string
  | Failure string
  | RunNotFound string
  | NoContext string

fun isError :: "ToolResult \<Rightarrow> bool" where
  "isError (Created d rid) = False"
| "isError _ = True"

datatype outcome = Returned ToolResult | Thrown exn

text \<open>\<^verbatim>\<open>err instanceof Error ? err.message : String(err)\<close>.\<close>

fun message :: "exn \<Rightarrow> string" where
  "message ENOENT = ''ENOENT: no such file or directory''"
| "message ENOTDIR = ''ENOTDIR: not a directory''"
| "message SyntaxError = ''Unexpected token in JSON''"
| "message (TypeError m) = m"
| "message (IOError m) = m"
| "message (FetchError m) = m"

subsection \<open>Calls that can fail\<close>

text \<open>
  The places where a handler calls the storage layer. A storage failure that does
  not come from the state of the store (disk full, permission denied) is a set
  \<open>faults\<close> of such places: the call at a place in the set throws and leaves the
  world as it was.
\<close>

datatype site =
    LoadEnv | ReadSource | CreateRun | CtxRunning | WriteContext | CtxCompleted | SrcRunning
  | ReadEchoRefs | SrcFailed | CompleteFailed
  | WriteSources | SrcCompleted | CmpRunning | WriteEcho | CmpCompleted
  | StoreRunning | WriteEchoRef | StoreCompleted | RecordCompleted | WebsetStep
  | CompleteOk | CompleteCaught

type_synonym 'a io = "world \<Rightarrow> (exn + 'a) \<times> world"

definition bindIO :: "'a io \<Rightarrow> ('a \<Rightarrow> 'b io) \<Rightarrow> 'b io" where
  "bindIO m f = (\<lambda>w. case m w of (Inl e, w') \<Rightarrow> (Inl e, w') | (Inr x, w') \<Rightarrow> f x w')"

definition throwIO :: "exn \<Rightarrow> 'a io" where
  "throwIO e = (\<lambda>w. (Inl e, w))"

definition returnIO :: "'a \<Rightarrow> 'a io" where
  "returnIO x = (\<lambda>w. (Inr x, w))"

text \<open>Statements in sequence; the first that throws ends the sequence.\<close>

fun seqIO :: "unit io list \<Rightarrow> unit io" where
  "seqIO [] = returnIO ()"
| "seqIO (m # ms) = bindIO m (\<lambda>_. seqIO ms)"

text \<open>A function of runs.ts called at a place.\<close>

definition onRuns :: "(site \<Rightarrow> bool) \<Rightarrow> site \<Rightarrow> (runs \<Rightarrow> exn + runs) \<Rightarrow> unit io" where
  "onRuns faults s f =
     (\<lambda>w. if faults s then (Inl (IOError ''storage failure''), w)
          else (case f (w_runs w) of
                  Inl e \<Rightarrow> (Inl e, w)
                | Inr r \<Rightarrow> (Inr (), w\<lparr> w_runs := r \<rparr>)))"

text \<open>
  \<^verbatim>\<open>writeFileSync(path, content)\<close> with a content that may be \<^verbatim>\<open>undefined\<close>: Node
  throws a TypeError for it.
\<close>

definition writeArtifactOpt ::
  "(site \<Rightarrow> bool) \<Rightarrow> site \<Rightarrow> string \<Rightarrow> string \<Rightarrow> content option \<Rightarrow> unit io" where
  "writeArtifactOpt faults s rid filename c =
     (case c of
        None \<Rightarrow> throwIO (TypeError ''The data argument must be of type string'')
      | Some v \<Rightarrow> onRuns faults s (writeArtifact rid filename v))"

text \<open>
  \<^verbatim>\<open>JSON.stringify(xs, null, 2)\<close> of an array whose items have the JSON texts
  \<open>xs\<close>, up to white space.
\<close>

fun joinComma :: "string list \<Rightarrow> string" where
  "joinComma [] = []"
| "joinComma [x] = x"
| "joinComma (x # xs) = x @ '','' @ joinComma xs"

definition jsonArray :: "string list \<Rightarrow> string" where
  "jsonArray xs = ''['' @ joinComma xs @ '']''"

text \<open>
  The call \<^verbatim>\<open>writeEchoRef({...data})\<close> of a handler: \<^verbatim>\<open>ref.title.replace\<close> throws
  when the reply has no title; an absent \<^verbatim>\<open>markdown\<close> is falsy, and no body is
  written (this call is only reached when the markdown was written as an artifact).
\<close>

definition writeEchoRefIO :: "(site \<Rightarrow> bool) \<Rightarrow> EngineData \<Rightarrow> unit io" where
  "writeEchoRefIO faults d =
     (\<lambda>w. if faults WriteEchoRef then (Inl (IOError ''storage failure''), w)
          else (case d_title d of
                  None \<Rightarrow> (Inl (TypeError ''Cannot read properties of undefined''),
                            w\<lparr> w_echoes := Some (ensureEchoesDir (w_echoes w)) \<rparr>)
                | Some t \<Rightarrow>
                    (Inr (),
                     w\<lparr> w_echoes :=
                          writeEchoRef
                            \<lparr> ref_echoId = d_echoId d, privateKey = d_privateKey d, title = t,
                              ref_status = d_status d, createdAt = d_createdAt d,
                              updatedAt = d_updatedAt d,
                              markdown = (case d_markdown d of None \<Rightarrow> [] | Some m \<Rightarrow> m),
                              jsonPath = None \<rparr>
                            None (w_echoes w) \<rparr>)))"

text \<open>Sending a request: it is recorded, and the engine behaves as \<open>engine\<close> says.\<close>

definition fetch :: "(EngineRequest \<Rightarrow> Response) \<Rightarrow> EngineRequest \<Rightarrow> Response io" where
  "fetch engine req = (\<lambda>w. (Inr (engine req), w\<lparr> w_sent := w_sent w @ [req] \<rparr>))"

definition keep :: "string option \<Rightarrow> string option" where
  "keep v = (if truthy_opt v then v else None)"

subsection \<open>The handler of loretech_echo\<close>

definition contextArtifact :: "EchoArgs \<Rightarrow> ContextArtifact" where
  "contextArtifact args =
     \<lparr> c_context = Some (a_context args), c_depth = Some (a_depth args), c_focus = a_focus args,
       c_intent = a_intent args, c_signals = a_signals args, c_scope = a_scope args,
       c_source = a_source args, c_replayedFrom = None, c_replayedStep = None \<rparr>"

definition echoBody :: "EchoArgs \<Rightarrow> string option \<Rightarrow> EngineRequest" where
  "echoBody args auth =
     \<lparr> b_context = Some (a_context args), b_depth = Some (a_depth args),
       b_focus = keep (a_focus args),
       b_intent = keep (a_intent args), b_signals = keep (a_signals args),
       b_scope = keep (a_scope args), b_source = keep (a_source args),
       b_echoId = keep (a_echoId args), b_model = keep (a_model args),
       authorization = auth \<rparr>"

text \<open>
  The header \<^verbatim>\<open>Authorization\<close> of an update: the private key of the first stored
  echo with the id. \<^verbatim>\<open>readEchoRefs\<close> creates the echoes directory when it is missing.
\<close>

definition lookupAuth ::
  "(site \<Rightarrow> bool) \<Rightarrow> (string \<Rightarrow> string \<Rightarrow> int) \<Rightarrow> string option \<Rightarrow> string option io" where
  "lookupAuth faults localeCompare echoId =
     (\<lambda>w. if \<not> truthy_opt echoId then (Inr None, w)
          else if faults ReadEchoRefs then (Inl (IOError ''storage failure''), w)
          else (case find (\<lambda>r. Some (ref_echoId r) = echoId)
                       (readEchoRefs localeCompare (w_echoes w)) of
                  None \<Rightarrow> (Inr None, w\<lparr> w_echoes := Some (ensureEchoesDir (w_echoes w)) \<rparr>)
                | Some existing \<Rightarrow>
                    (Inr (if truthy (privateKey existing)
                          then Some (''Bearer '' @ privateKey existing) else None),
                     w\<lparr> w_echoes := Some (ensureEchoesDir (w_echoes w)) \<rparr>)))"

text \<open>Step 1, before the \<^verbatim>\<open>try\<close> block: the run is created and the context captured.\<close>

definition captureContext ::
  "(site \<Rightarrow> bool) \<Rightarrow> (site \<Rightarrow> string) \<Rightarrow> string \<Rightarrow> ContextArtifact \<Rightarrow> unit io" where
  "captureContext faults clock rid ctx =
     seqIO
       [onRuns faults CreateRun (\<lambda>r. map_sum id fst (createRun (clock CreateRun) rid r)),
        onRuns faults CtxRunning (updateStep (clock CtxRunning) rid ''context'' Running None),
        onRuns faults WriteContext (writeArtifact rid ''context.json'' (ContextJson ctx)),
        onRuns faults CtxCompleted
          (updateStep (clock CtxCompleted) rid ''context'' Completed (Some ''context.json'')),
        onRuns faults SrcRunning (updateStep (clock SrcRunning) rid ''sources'' Running None)]"

text \<open>The branch \<^verbatim>\<open>if (!res.ok)\<close>, after the body text was read.\<close>

definition engineFailed ::
  "(site \<Rightarrow> bool) \<Rightarrow> (site \<Rightarrow> string) \<Rightarrow> string \<Rightarrow> string \<Rightarrow> string \<Rightarrow> ToolResult io" where
  "engineFailed faults clock rid st txt =
     bindIO
       (seqIO
          [onRuns faults SrcFailed (updateStep (clock SrcFailed) rid ''sources'' Failed None),
           onRuns faults CompleteFailed
             (completeRun (clock CompleteFailed) rid
                \<lparr> res_echoId = None,
                  res_error = Some (''Engine returned '' @ st @ '': '' @ txt) \<rparr>)])
       (\<lambda>_. returnIO (EngineFailure st txt))"

text \<open>
  The call \<^verbatim>\<open>pollWebsetDataset(...)\<close> of the handler, made when \<open>b\<close> holds: it sets
  the first timer and returns; the poll itself runs later.
\<close>

definition schedulePoll :: "bool \<Rightarrow> string \<Rightarrow> string \<Rightarrow> unit io" where
  "schedulePoll b echoId rid =
     (\<lambda>w. (Inr (), if b then w\<lparr> w_timers := w_timers w @ [(echoId, rid)] \<rparr> else w))"

text \<open>
  The statements after a reply with data, up to the step of the data set. \<open>startPoll\<close>
  says whether this handler calls \<^verbatim>\<open>pollWebsetDataset\<close> when the reply has a
  \<^verbatim>\<open>websetId\<close>.
\<close>

definition stageArtifacts ::
  "(site \<Rightarrow> bool) \<Rightarrow> (site \<Rightarrow> string) \<Rightarrow> string \<Rightarrow> EngineData \<Rightarrow> bool \<Rightarrow> unit io" where
  "stageArtifacts faults clock rid d startPoll =
     seqIO
       [writeArtifactOpt faults WriteSources rid ''sources.json''
          (map_option (\<lambda>xs. Text (jsonArray xs)) (d_sources d)),
        onRuns faults SrcCompleted
          (updateStep (clock SrcCompleted) rid ''sources'' Completed (Some ''sources.json'')),
        onRuns faults CmpRunning (updateStep (clock CmpRunning) rid ''compose'' Running None),
        writeArtifactOpt faults WriteEcho rid ''echo.md'' (map_option Text (d_markdown d)),
        onRuns faults CmpCompleted
          (updateStep (clock CmpCompleted) rid ''compose'' Completed (Some ''echo.md'')),
        onRuns faults StoreRunning (updateStep (clock StoreRunning) rid ''store'' Running None),
        writeEchoRefIO faults d,
        onRuns faults StoreCompleted (updateStep (clock StoreCompleted) rid ''store'' Completed None),
        onRuns faults RecordCompleted
          (updateStep (clock RecordCompleted) rid ''record'' Completed None),
        onRuns faults WebsetStep
          (updateStep (clock WebsetStep) rid ''webset''
             (if truthy_opt (d_websetId d) then Running else Completed) None),
        schedulePoll (startPoll \<and> truthy_opt (d_websetId d)) (d_echoId d) rid,
        onRuns faults CompleteOk
          (completeRun (clock CompleteOk) rid
             \<lparr> res_echoId = Some (d_echoId d), res_error = None \<rparr>)]"

text \<open>The \<^verbatim>\<open>try\<close> block of the handler.\<close>

definition echoTry ::
  "(site \<Rightarrow> bool) \<Rightarrow> (site \<Rightarrow> string) \<Rightarrow> (string \<Rightarrow> string \<Rightarrow> int) \<Rightarrow> string \<Rightarrow> EchoArgs
     \<Rightarrow> (EngineRequest \<Rightarrow> Response) \<Rightarrow> ToolResult io" where
  "echoTry faults clock localeCompare rid args engine =
     bindIO (lookupAuth faults localeCompare (a_echoId args)) (\<lambda>auth.
     bindIO (fetch engine (echoBody args auth)) (\<lambda>res.
       case res of
         FetchThrows m \<Rightarrow> throwIO (FetchError m)
       | NotOk st txt \<Rightarrow> engineFailed faults clock rid st txt
       | NotOkNoText st m \<Rightarrow> throwIO (FetchError m)
       | OkNoJson m \<Rightarrow> throwIO SyntaxError
       | OkData d \<Rightarrow>
           bindIO (stageArtifacts faults clock rid d True) (\<lambda>_.
             case d_tags d of
               None \<Rightarrow> throwIO (TypeError ''Cannot read properties of undefined'')
             | Some tags \<Rightarrow>
                 (case d_sources d of
                    None \<Rightarrow> throwIO (TypeError ''Cannot read properties of undefined'')
                  | Some srcs \<Rightarrow> returnIO (Created d rid)))))"

text \<open>
  A \<^verbatim>\<open>try\<close> block with the \<^verbatim>\<open>catch\<close> block of the handlers: the message of the
  exception is recorded with \<^verbatim>\<open>completeRun\<close> and returned. An exception of that
  \<^verbatim>\<open>completeRun\<close> leaves the handler.
\<close>

definition tryCatch ::
  "(site \<Rightarrow> bool) \<Rightarrow> (site \<Rightarrow> string) \<Rightarrow> string \<Rightarrow> ToolResult io \<Rightarrow> world \<Rightarrow> outcome \<times> world" where
  "tryCatch faults clock rid body w =
     (case body w of
        (Inr r, w2) \<Rightarrow> (Returned r, w2)
      | (Inl e, w2) \<Rightarrow>
          (case onRuns faults CompleteCaught
                  (completeRun (clock CompleteCaught) rid
                     \<lparr> res_echoId = None, res_error = Some (message e) \<rparr>) w2 of
             (Inl e', w3) \<Rightarrow> (Thrown e', w3)
           | (Inr u, w3) \<Rightarrow> (Returned (Failure (message e)), w3)))"

text \<open>
  The handler of \<^verbatim>\<open>loretech_echo\<close>. \<open>rid\<close> is the run id it generates, \<open>env\<close> what
  \<^verbatim>\<open>loadEnv\<close> returns.
\<close>

definition loretech_echo ::
  "(site \<Rightarrow> bool) \<Rightarrow> (site \<Rightarrow> string) \<Rightarrow> (string \<Rightarrow> string \<Rightarrow> int) \<Rightarrow> string \<Rightarrow> Env \<Rightarrow> EchoArgs
     \<Rightarrow> (EngineRequest \<Rightarrow> Response) \<Rightarrow> world \<Rightarrow> outcome \<times> world" where
  "loretech_echo faults clock localeCompare rid env args engine w =
     (if faults LoadEnv then (Thrown (IOError ''storage failure''), w)
      else if \<not> keysPresent env then (Returned MissingKeys, w)
      else (case captureContext faults clock rid (contextArtifact args) w of
              (Inl e, w1) \<Rightarrow> (Thrown e, w1)
            | (Inr u, w1) \<Rightarrow>
                tryCatch faults clock rid (echoTry faults clock localeCompare rid args engine) w1))"

subsection \<open>The handler of loretech_rerun\<close>

record RerunArgs =
  r_runId :: string
  r_fromStep :: string
  r_overrideContext :: "string option"

text \<open>
  The test \<^verbatim>\<open>args.fromStep === "context" && args.overrideContext\<close>, and the context
  the new run starts from: the override when the test holds, and otherwise
  \<^verbatim>\<open>originalContext.context\<close>, which may be \<^verbatim>\<open>undefined\<close>.
\<close>

definition overrideTaken :: "RerunArgs \<Rightarrow> bool" where
  "overrideTaken args = (r_fromStep args = ''context'' \<and> truthy_opt (r_overrideContext args))"

definition rerunContext :: "RerunArgs \<Rightarrow> ContextArtifact \<Rightarrow> string option" where
  "rerunContext args orig =
     (if overrideTaken args then r_overrideContext args else c_context orig)"

definition rerunArtifact :: "RerunArgs \<Rightarrow> ContextArtifact \<Rightarrow> ContextArtifact" where
  "rerunArtifact args orig =
     \<lparr> c_context = rerunContext args orig, c_depth = c_depth orig, c_focus = c_focus orig,
       c_intent = None, c_signals = None, c_scope = None, c_source = None,
       c_replayedFrom = Some (r_runId args), c_replayedStep = Some (r_fromStep args) \<rparr>"

definition rerunBody :: "RerunArgs \<Rightarrow> ContextArtifact \<Rightarrow> EngineRequest" where
  "rerunBody args orig =
     \<lparr> b_context = rerunContext args orig, b_depth = c_depth orig, b_focus = keep (c_focus orig),
       b_intent = keep (c_intent orig), b_signals = keep (c_signals orig),
       b_scope = keep (c_scope orig), b_source = keep (c_source orig),
       b_echoId = None, b_model = None, authorization = None \<rparr>"

definition rerunTry ::
  "(site \<Rightarrow> bool) \<Rightarrow> (site \<Rightarrow> string) \<Rightarrow> string \<Rightarrow> RerunArgs \<Rightarrow> ContextArtifact
     \<Rightarrow> (EngineRequest \<Rightarrow> Response) \<Rightarrow> ToolResult io" where
  "rerunTry faults clock rid args orig engine =
     bindIO (fetch engine (rerunBody args orig)) (\<lambda>res.
       case res of
         FetchThrows m \<Rightarrow> throwIO (FetchError m)
       | NotOk st txt \<Rightarrow> engineFailed faults clock rid st txt
       | NotOkNoText st m \<Rightarrow> throwIO (FetchError m)
       | OkNoJson m \<Rightarrow> throwIO SyntaxError
       | OkData d \<Rightarrow>
           bindIO (stageArtifacts faults clock rid d False) (\<lambda>_. returnIO (Created d rid)))"

text \<open>
  \<^verbatim>\<open>JSON.parse(contextRaw)\<close> and what reading the seven fields of its result gives.
  For the two shapes this program serialises the result is known: a context object
  has its fields, and a run record is an object with none of them. For any other text
  it is the parameter \<open>jsonParse\<close>: \<open>Inl SyntaxError\<close> for a text that is no JSON,
  \<open>Inr None\<close> for \<^verbatim>\<open>null\<close>, and \<open>Inr (Some fields)\<close> for any other value, with
  \<open>None\<close> for a field the value does not have.
\<close>

definition noFields :: ContextArtifact where
  "noFields =
     \<lparr> c_context = None, c_depth = None, c_focus = None, c_intent = None, c_signals = None,
       c_scope = None, c_source = None, c_replayedFrom = None, c_replayedStep = None \<rparr>"

definition parseContext ::
  "(string \<Rightarrow> exn + ContextArtifact option) \<Rightarrow> content \<Rightarrow> exn + ContextArtifact option" where
  "parseContext jsonParse c =
     (case c of
        ContextJson orig \<Rightarrow> Inr (Some orig)
      | MetaJson m \<Rightarrow> Inr (Some noFields)
      | Text txt \<Rightarrow> jsonParse txt)"

text \<open>The handler from \<^verbatim>\<open>loadEnv()\<close> on, for the parsed object \<open>orig\<close>.\<close>

definition rerunFrom ::
  "(site \<Rightarrow> bool) \<Rightarrow> (site \<Rightarrow> string) \<Rightarrow> string \<Rightarrow> Env \<Rightarrow> RerunArgs \<Rightarrow> ContextArtifact
     \<Rightarrow> (EngineRequest \<Rightarrow> Response) \<Rightarrow> world \<Rightarrow> outcome \<times> world" where
  "rerunFrom faults clock rid env args orig engine w =
     (if faults LoadEnv then (Thrown (IOError ''storage failure''), w)
      else if \<not> keysPresent env then (Returned MissingKeys, w)
      else (case captureContext faults clock rid (rerunArtifact args orig) w of
              (Inl e, w1) \<Rightarrow> (Thrown e, w1)
            | (Inr u, w1) \<Rightarrow>
                tryCatch faults clock rid (rerunTry faults clock rid args orig engine) w1))"

text \<open>
  The same when the parsed value is \<^verbatim>\<open>null\<close>. Reading \<^verbatim>\<open>originalContext.context\<close>
  throws a TypeError at once, unless the override is taken; then the first field read
  is \<^verbatim>\<open>originalContext.depth\<close>, in the argument of \<^verbatim>\<open>writeArtifact\<close>, after the new
  run was created and its context step set to running. Neither place is inside a
  \<^verbatim>\<open>try\<close> block.
\<close>

definition rerunFromNull ::
  "(site \<Rightarrow> bool) \<Rightarrow> (site \<Rightarrow> string) \<Rightarrow> string \<Rightarrow> Env \<Rightarrow> RerunArgs \<Rightarrow> world
     \<Rightarrow> outcome \<times> world" where
  "rerunFromNull faults clock rid env args w =
     (if \<not> overrideTaken args then (Thrown (TypeError ''Cannot read properties of null''), w)
      else if faults LoadEnv then (Thrown (IOError ''storage failure''), w)
      else if \<not> keysPresent env then (Returned MissingKeys, w)
      else (case seqIO
                   [onRuns faults CreateRun (\<lambda>r. map_sum id fst (createRun (clock CreateRun) rid r)),
                    onRuns faults CtxRunning
                      (updateStep (clock CtxRunning) rid ''context'' Running None)] w of
              (Inl e, w1) \<Rightarrow> (Thrown e, w1)
            | (Inr u, w1) \<Rightarrow> (Thrown (TypeError ''Cannot read properties of null''), w1)))"

text \<open>
  The handler of \<^verbatim>\<open>loretech_rerun\<close>; \<open>rid\<close> is the id of the new run. The test
  \<^verbatim>\<open>if (!contextRaw)\<close> holds for a missing file and for an empty one.
\<close>

definition loretech_rerun ::
  "(site \<Rightarrow> bool) \<Rightarrow> (site \<Rightarrow> string) \<Rightarrow> (string \<Rightarrow> exn + ContextArtifact option) \<Rightarrow> string
     \<Rightarrow> Env \<Rightarrow> RerunArgs \<Rightarrow> (EngineRequest \<Rightarrow> Response) \<Rightarrow> world \<Rightarrow> outcome \<times> world" where
  "loretech_rerun faults clock jsonParse rid env args engine w =
     (if faults ReadSource then (Thrown (IOError ''storage failure''), w)
      else
      (case readMeta (w_runs w) (r_runId args) of
         Inl e \<Rightarrow> (Thrown e, w)
       | Inr None \<Rightarrow> (Returned (RunNotFound (r_runId args)), w)
       | Inr (Some originalMeta) \<Rightarrow>
           (case readArtifact (w_runs w) (r_runId args) ''context.json'' of
              None \<Rightarrow> (Returned (NoContext (r_runId args)), w)
            | Some contextRaw \<Rightarrow>
                (if contextRaw = Text [] then (Returned (NoContext (r_runId args)), w)
                 else (case parseContext jsonParse contextRaw of
                         Inl e \<Rightarrow> (Thrown e, w)
                       | Inr None \<Rightarrow> rerunFromNull faults clock rid env args w
                       | Inr (Some orig) \<Rightarrow> rerunFrom faults clock rid env args orig engine w)))))"

subsection \<open>Background polling of the data set\<close>

text \<open>
  What one poll of \<^verbatim>\<open>GET /echo/{id}\<close> does: \<^verbatim>\<open>fetch\<close> rejects; the reply is not
  ok; its body is no JSON; or it carries \<^verbatim>\<open>websetStatus\<close> and \<^verbatim>\<open>dataset\<close> (the
  JSON texts of its items), each possibly absent.
\<close>

datatype PollReply =
    PollFetchThrows
  | PollNotOk
  | PollNoJson
  | PollData "string option" "string list option"

definition MAX_ATTEMPTS :: nat where
  "MAX_ATTEMPTS = 30"

text \<open>
  The \<^verbatim>\<open>try\<close> block of \<^verbatim>\<open>poll\<close>. \<open>True\<close> is a \<^verbatim>\<open>return\<close> out of \<^verbatim>\<open>poll\<close>;
  \<open>False\<close> is leaving the block, normally or through the empty \<^verbatim>\<open>catch\<close>, to the
  statement that follows it. A write that was done before a later one throws stays done.
\<close>

definition pollWrite :: "string list \<Rightarrow> string \<Rightarrow> string \<Rightarrow> string \<Rightarrow> world \<Rightarrow> bool \<times> world" where
  "pollWrite dataset now echoId rid w =
     (case writeArtifact rid ''dataset.json'' (Text (jsonArray dataset)) (w_runs w) of
        Inl e \<Rightarrow> (False, w)
      | Inr r1 \<Rightarrow>
          (case updateStep now rid ''webset'' Completed None r1 of
             Inl e \<Rightarrow> (False, w\<lparr> w_runs := r1 \<rparr>)
           | Inr r2 \<Rightarrow>
               (case w_echoes w of
                  None \<Rightarrow> (False, w\<lparr> w_runs := r2 \<rparr>)
                | Some d \<Rightarrow>
                    (True, w\<lparr> w_runs := r2,
                             w_echoes := Some (put_file (echoId @ ''.json'') (jsonArray dataset) d) \<rparr>))))"

definition pollTry :: "PollReply \<Rightarrow> string \<Rightarrow> string \<Rightarrow> string \<Rightarrow> world \<Rightarrow> bool \<times> world" where
  "pollTry reply now echoId rid w =
     (case reply of
        PollFetchThrows \<Rightarrow> (False, w)
      | PollNotOk \<Rightarrow> (True, w)
      | PollNoJson \<Rightarrow> (False, w)
      | PollData st ds \<Rightarrow>
          (case ds of
             Some (x # xs) \<Rightarrow>
               (if st = Some ''completed'' then pollWrite (x # xs) now echoId rid w
                else (False, w))
           | _ \<Rightarrow> (False, w)))"

text \<open>
  \<^verbatim>\<open>poll\<close>, with \<open>attempts\<close> the value of the counter when it is called. The
  \<open>n\<close>-th call gets the reply \<open>replies n\<close> and reads the time \<open>clock n\<close>. The timer
  between two calls is not modelled: nothing else acts on the world in between. An
  exception of the last \<^verbatim>\<open>updateStep\<close> is outside the \<^verbatim>\<open>try\<close> block and is lost
  with the rejected promise of the timer callback; the world stays as it is.
\<close>

function poll ::
  "(nat \<Rightarrow> PollReply) \<Rightarrow> (nat \<Rightarrow> string) \<Rightarrow> string \<Rightarrow> string \<Rightarrow> nat \<Rightarrow> world \<Rightarrow> world" where
  "poll replies clock echoId rid attempts w =
     (case pollTry (replies (attempts + 1)) (clock (attempts + 1)) echoId rid w of
        (True, w') \<Rightarrow> w'
      | (False, w') \<Rightarrow>
          (if attempts + 1 < MAX_ATTEMPTS
           then poll replies clock echoId rid (attempts + 1) w'
           else (case updateStep (clock (attempts + 1)) rid ''webset'' Completed None (w_runs w') of
                   Inl e \<Rightarrow> w'
                 | Inr r \<Rightarrow> w'\<lparr> w_runs := r \<rparr>)))"
  by pat_completeness auto
termination
  by (relation "measure (\<lambda>(replies, clock, echoId, rid, attempts, w). MAX_ATTEMPTS - attempts)") auto

text \<open>\<^verbatim>\<open>pollWebsetDataset\<close>: the counter starts at 0 and the first timer is set.\<close>

definition pollWebsetDataset ::
  "(nat \<Rightarrow> PollReply) \<Rightarrow> (nat \<Rightarrow> string) \<Rightarrow> string \<Rightarrow> string \<Rightarrow> world \<Rightarrow> world" where
  "pollWebsetDataset replies clock echoId rid w = poll replies clock echoId rid 0 w"

text \<open>
  The world in which the background poll of the run \<open>r1\<close> and the echo \<open>e1\<close> was
  started: the run has its record, and its webset step is running.
\<close>

definition world_polling :: world where
  "world_polling =
     \<lparr> w_runs = orEmpty (updateStep ''t1'' ''r1'' ''webset'' Running None store_created),
       w_echoes = Some [], w_sent = [], w_timers = [(''e1'', ''r1'')] \<rparr>"


text \<open>An environment with the three keys, a request for an echo, and an empty world.\<close>

definition env_ok :: Env where
  "env_ok = \<lparr> LORETECH_API_KEY = Some ''lk'', OPENROUTER_API_KEY = Some ''ok'',
              EXA_API_KEY = Some ''ek'' \<rparr>"

definition args_A :: EchoArgs where
  "args_A = \<lparr> a_context = ''A'', a_depth = ''standard'', a_focus = None, a_intent = None,
              a_signals = None, a_scope = None, a_source = None, a_echoId = None,
              a_model = None \<rparr>"

definition world_empty :: world where
  "world_empty = \<lparr> w_runs = (\<lambda>x. None), w_echoes = None, w_sent = [], w_timers = [] \<rparr>"

section \<open>The run directory as a path (runs.ts, memory.ts)\<close>

text \<open>
  \<^verbatim>\<open>listArtifacts\<close> reads the directory \<^verbatim>\<open>path.join(runsDir(), runId)\<close>, and the tool
  \<^verbatim>\<open>loretech_inspect\<close> passes it the string of its caller as the run id: what
  \<^verbatim>\<open>path.join\<close> makes of that string decides which directory is read. For this
  function the file system is a tree of directories and regular files (POSIX paths,
  no symbolic links, every directory readable); a directory is the list of its
  entries in the order \<^verbatim>\<open>readdirSync\<close> reports them. The store \<open>runs\<close> of the
  functions above is the runs directory of this tree, seen through run ids that are
  a single path segment.
\<close>

datatype node = File content | Dir "(string \<times> node) list"

text \<open>
  Following a list of segments from a node: \<open>ENOTDIR\<close> when a segment is looked up
  in a regular file, \<open>ENOENT\<close> when a directory has no entry of the name.
\<close>

fun lookup :: "node \<Rightarrow> string list \<Rightarrow> exn + node" where
  "lookup n [] = Inr n"
| "lookup (File c) (s # ss) = Inl ENOTDIR"
| "lookup (Dir es) (s # ss) =
     (case map_of es s of None \<Rightarrow> Inl ENOENT | Some n \<Rightarrow> lookup n ss)"

text \<open>The pieces of a string between its slashes; \<open>''a//b/''\<close> gives \<open>a\<close>, the empty string, \<open>b\<close>, the empty string.\<close>

fun split_slash :: "string \<Rightarrow> string list" where
  "split_slash [] = [[]]"
| "split_slash (c # cs) =
     (if c = CHR ''/'' then [] # split_slash cs
      else (case split_slash cs of [] \<Rightarrow> [[c]] | s # ss \<Rightarrow> (c # s) # ss))"

text \<open>
  The normalisation of \<^verbatim>\<open>path.normalize\<close>, segment by segment, \<open>res\<close> being the
  segments kept so far: an empty segment and \<^verbatim>\<open>.\<close> are dropped; \<^verbatim>\<open>..\<close> removes the
  last segment kept, is dropped at the root of an absolute path, and is kept at the
  start of a relative one.
\<close>

fun normalizeSegments :: "bool \<Rightarrow> string list \<Rightarrow> string list \<Rightarrow> string list" where
  "normalizeSegments isAbs res [] = res"
| "normalizeSegments isAbs res (s # ss) =
     (if s = [] \<or> s = ''.'' then normalizeSegments isAbs res ss
      else if s = ''..'' then
        (if res \<noteq> [] \<and> last res \<noteq> ''..'' then normalizeSegments isAbs (butlast res) ss
         else if isAbs then normalizeSegments isAbs res ss
         else normalizeSegments isAbs (res @ [''..'']) ss)
      else normalizeSegments isAbs (res @ [s]) ss)"

text \<open>
  A normalised path: whether it starts at the root, its segments, and whether it
  ends with a slash (\<^verbatim>\<open>path.normalize\<close> keeps a trailing slash).
\<close>

record path =
  isAbsolute :: bool
  segments :: "string list"
  trailingSlash :: bool

text \<open>\<^verbatim>\<open>path.normalize(s)\<close>.\<close>

definition normalize :: "string \<Rightarrow> path" where
  "normalize s =
     \<lparr> isAbsolute = (s \<noteq> [] \<and> hd s = CHR ''/''),
       segments = normalizeSegments (s \<noteq> [] \<and> hd s = CHR ''/'') [] (split_slash s),
       trailingSlash = (s \<noteq> [] \<and> last s = CHR ''/'') \<rparr>"

text \<open>
  \<^verbatim>\<open>path.join(p, s)\<close> for a normalised \<open>p\<close>: the normalisation of \<open>p\<close>, a slash and
  \<open>s\<close>; an empty \<open>s\<close> is left out of the join.
\<close>

definition join :: "path \<Rightarrow> string \<Rightarrow> path" where
  "join p s =
     \<lparr> isAbsolute = isAbsolute p,
       segments = normalizeSegments (isAbsolute p) (segments p) (split_slash s),
       trailingSlash = (if s = [] then trailingSlash p else last s = CHR ''/'') \<rparr>"

text \<open>
  \<^verbatim>\<open>process.cwd()\<close> and its ancestors are absolute paths without a trailing slash,
  given by their segments.
\<close>

definition absolutePath :: "string list \<Rightarrow> path" where
  "absolutePath segs = \<lparr> isAbsolute = True, segments = segs, trailingSlash = False \<rparr>"

text \<open>The segments from the root that the file system follows: a relative path starts at the working directory.\<close>

definition resolve :: "string list \<Rightarrow> path \<Rightarrow> string list" where
  "resolve cwd p = (if isAbsolute p then segments p else normalizeSegments True cwd (segments p))"

text \<open>
  \<^verbatim>\<open>fs.existsSync\<close>: false when the path cannot be followed, and for a regular
  file named with a trailing slash.
\<close>

definition existsSync :: "node \<Rightarrow> string list \<Rightarrow> path \<Rightarrow> bool" where
  "existsSync root cwd p =
     (case lookup root (resolve cwd p) of
        Inl e \<Rightarrow> False
      | Inr (File c) \<Rightarrow> \<not> trailingSlash p
      | Inr (Dir es) \<Rightarrow> True)"

text \<open>\<^verbatim>\<open>fs.readdirSync\<close> throws \<open>ENOTDIR\<close> on a regular file.\<close>

definition readdirSync :: "node \<Rightarrow> string list \<Rightarrow> path \<Rightarrow> exn + string list" where
  "readdirSync root cwd p =
     (case lookup root (resolve cwd p) of
        Inl e \<Rightarrow> Inl e
      | Inr (File c) \<Rightarrow> Inl ENOTDIR
      | Inr (Dir es) \<Rightarrow> Inr (map fst es))"

text \<open>
  The loop of \<^verbatim>\<open>findLoretechDir\<close>: \<^verbatim>\<open>path.dirname\<close> removes the last segment, and
  the root is its own parent.
\<close>

function walkUp :: "node \<Rightarrow> string list \<Rightarrow> string list \<Rightarrow> path option" where
  "walkUp root cwd dir =
     (if dir = [] then None
      else let dir' = butlast dir;
               candidate = join (absolutePath dir') ''.loretech''
           in if existsSync root cwd candidate then Some candidate
              else if existsSync root cwd (join (absolutePath dir') ''.git'') then None
              else walkUp root cwd dir')"
  by pat_completeness auto
termination
  by (relation "measure (\<lambda>(root, cwd, dir). length dir)") auto

text \<open>
  \<^verbatim>\<open>findLoretechDir\<close> (memory.ts); \<open>home\<close> is the constant \<^verbatim>\<open>HOME\<close>, any string
  (\<^verbatim>\<open>~\<close> when the environment has none).
\<close>

definition findLoretechDir :: "node \<Rightarrow> string list \<Rightarrow> string \<Rightarrow> path" where
  "findLoretechDir root cwd home =
     (let cwdDir = join (absolutePath cwd) ''.loretech''
      in if existsSync root cwd cwdDir then cwdDir
         else (case walkUp root cwd cwd of
                 Some candidate \<Rightarrow> candidate
               | None \<Rightarrow> join (normalize home) ''.loretech''))"

definition runsDir :: "node \<Rightarrow> string list \<Rightarrow> string \<Rightarrow> path" where
  "runsDir root cwd home = join (findLoretechDir root cwd home) ''runs''"

definition runDir :: "node \<Rightarrow> string list \<Rightarrow> string \<Rightarrow> string \<Rightarrow> path" where
  "runDir root cwd home rid = join (runsDir root cwd home) rid"

text \<open>
  \<^verbatim>\<open>listArtifacts\<close>: \<^verbatim>\<open>Array.prototype.sort()\<close> without a comparator orders strings
  by their code units, the lexicographic order of \<open>char list\<close>.
\<close>

definition listArtifacts :: "node \<Rightarrow> string list \<Rightarrow> string \<Rightarrow> string \<Rightarrow> exn + string list" where
  "listArtifacts root cwd home rid =
     (let dir = runDir root cwd home rid
      in if \<not> existsSync root cwd dir then Inr []
         else bindE (readdirSync root cwd dir) (\<lambda>names. Inr (sort names)))"

text \<open>A run id that is one path segment: not empty, not \<^verbatim>\<open>.\<close> or \<^verbatim>\<open>..\<close>, without a slash.\<close>

definition plainName :: "string \<Rightarrow> bool" where
  "plainName s = (s \<noteq> [] \<and> s \<noteq> ''.'' \<and> s \<noteq> ''..'' \<and> CHR ''/'' \<notin> set s)"

section \<open>Predicates and examples for the handlers\<close>

text \<open>A storage failure at one place and nowhere else.\<close>

definition faultAt :: "site \<Rightarrow> site \<Rightarrow> bool" where
  "faultAt s x = (x = s)"

text \<open>The run has a record that can be read.\<close>

definition hasMeta :: "string \<Rightarrow> runs \<Rightarrow> bool" where
  "hasMeta rid fs = (case readMeta fs rid of Inr (Some m) \<Rightarrow> True | _ \<Rightarrow> False)"

text \<open>An action keeps a property of the world, whether it returns or throws.\<close>

definition preserves :: "(world \<Rightarrow> bool) \<Rightarrow> 'a io \<Rightarrow> bool" where
  "preserves P m = (\<forall>w. P w \<longrightarrow> P (snd (m w)))"

text \<open>
  A property of the runs directory that the writes of a handler to the run \<open>rid\<close>
  keep: step updates, completion, and the artifacts \<^verbatim>\<open>sources.json\<close> and \<^verbatim>\<open>echo.md\<close>.
\<close>

definition stableR :: "string \<Rightarrow> (runs \<Rightarrow> bool) \<Rightarrow> bool" where
  "stableR rid Q =
     ((\<forall>now n st art r r'. Q r \<longrightarrow> updateStep now rid n st art r = Inr r' \<longrightarrow> Q r')
      \<and> (\<forall>now res r r'. Q r \<longrightarrow> completeRun now rid res r = Inr r' \<longrightarrow> Q r')
      \<and> (\<forall>c r r'. Q r \<longrightarrow> writeArtifact rid ''sources.json'' c r = Inr r' \<longrightarrow> Q r')
      \<and> (\<forall>c r r'. Q r \<longrightarrow> writeArtifact rid ''echo.md'' c r = Inr r' \<longrightarrow> Q r'))"

text \<open>A property of the runs directory together with one of the requests sent.\<close>

definition invW :: "(runs \<Rightarrow> bool) \<Rightarrow> (EngineRequest list \<Rightarrow> bool) \<Rightarrow> world \<Rightarrow> bool" where
  "invW Q S w = (Q (w_runs w) \<and> S (w_sent w))"

text \<open>The context object stored for a run, if there is one.\<close>

definition storedContext :: "runs \<Rightarrow> string \<Rightarrow> ContextArtifact option" where
  "storedContext fs rid =
     (case readArtifact fs rid ''context.json'' of Some (ContextJson c) \<Rightarrow> Some c | _ \<Rightarrow> None)"

text \<open>A complete reply of the engine, without a data set.\<close>

definition data_ok :: EngineData where
  "data_ok = \<lparr> d_echoId = ''e1'', d_status = ''draft'', d_title = Some ''T'', d_subtitle = None,
               d_markdown = Some ''body'', d_tags = Some [], d_sources = Some [],
               d_privateUrl = ''u'', d_privateKey = ''pk_1'',
               d_createdAt = ''2026-02-26T00:00:00Z'', d_updatedAt = ''2026-02-26T00:00:00Z'',
               d_websetId = None, d_websetStatus = None \<rparr>"

text \<open>A request with an intent and a scope.\<close>

definition args_aux :: EchoArgs where
  "args_aux = args_A\<lparr> a_intent := Some ''verify'', a_scope := Some ''proj'' \<rparr>"

text \<open>
  The world after \<^verbatim>\<open>loretech_echo\<close> ran as run \<open>r1\<close> on that request and the engine
  answered 500: the run is failed and its context is stored.
\<close>

definition world_failed :: world where
  "world_failed =
     snd (loretech_echo (\<lambda>s. False) (\<lambda>s. ''t'') (\<lambda>a b. 0) ''r1'' env_ok args_aux
            (\<lambda>req. NotOk ''500'' ''boom'') world_empty)"

text \<open>A replay of \<open>r1\<close> from the context step with the new context \<open>B\<close>.\<close>

definition rerun_B :: RerunArgs where
  "rerun_B = \<lparr> r_runId = ''r1'', r_fromStep = ''context'', r_overrideContext = Some ''B'' \<rparr>"

text \<open>The context object the run \<open>r1\<close> of that world has stored.\<close>

definition stored_aux :: ContextArtifact where
  "stored_aux = \<lparr> c_context = Some ''A'', c_depth = Some ''standard'', c_focus = None,
                  c_intent = Some ''verify'', c_signals = None, c_scope = Some ''proj'',
                  c_source = None, c_replayedFrom = None, c_replayedStep = None \<rparr>"

text \<open>
  The world after that replay ran as run \<open>r2\<close> and the engine answered with data, and
  a replay of \<open>r2\<close> from the sources step. No foreign text is parsed in either.
\<close>

definition world_replayed :: world where
  "world_replayed =
     snd (loretech_rerun (\<lambda>s. False) (\<lambda>s. ''t'') (\<lambda>txt. Inl SyntaxError) ''r2'' env_ok rerun_B
            (\<lambda>req. OkData data_ok) world_failed)"

definition rerun_again :: RerunArgs where
  "rerun_again = \<lparr> r_runId = ''r2'', r_fromStep = ''sources'', r_overrideContext = None \<rparr>"

text \<open>The run has a record that can be read, with a webset step.\<close>

definition hasWebset :: "string \<Rightarrow> runs \<Rightarrow> bool" where
  "hasWebset rid fs =
     (case readMeta fs rid of
        Inr (Some m) \<Rightarrow> find (\<lambda>s. name s = ''webset'') (steps m) \<noteq> None
      | _ \<Rightarrow> False)"

text \<open>
  A file system for the examples of \<^verbatim>\<open>listArtifacts\<close>: the home directory
  \<^verbatim>\<open>/home/u\<close> holds a project and \<^verbatim>\<open>.loretech\<close>, with the run \<open>r1\<close> of two files
  and a stray regular file in the runs directory. The server runs in the project.
\<close>

definition tree_home :: node where
  "tree_home =
     Dir [(''home'', Dir [(''u'', Dir
       [(''proj'', Dir []),
        (''.loretech'', Dir
          [(''echoes'', Dir []),
           (''runs'', Dir
             [(''r1'', Dir [(''meta.json'', File (MetaJson (initialMeta ''t'' ''r1''))),
                            (''context.json'', File (ContextJson stored_aux))]),
              (''notes.txt'', File (Text ''hello''))])])])])]"

definition cwd_proj :: "string list" where
  "cwd_proj = [''home'', ''u'', ''proj'']"

section \<open>Basic facts about the store\<close>

lemma map_of_put_file: "map_of (put_file n f d) = (map_of d)(n \<mapsto> f)"
  by (induction d) (auto simp: fun_eq_iff)

lemma names_put_file: "set (map fst (put_file n f d)) = insert n (set (map fst d))"
proof -
  have "fst ` set (put_file n f d) = dom (map_of (put_file n f d))"
    by (simp only: dom_map_of_conv_image_fst)
  also have "\<dots> = insert n (dom (map_of d))"
    by (simp add: map_of_put_file)
  finally show ?thesis
    by (simp add: dom_map_of_conv_image_fst)
qed

lemma distinct_put_file: "distinct (map fst d) \<Longrightarrow> distinct (map fst (put_file n f d))"
proof (induction d)
  case Nil
  then show ?case by simp
next
  case (Cons e d)
  obtain m g where e: "e = (m, g)" by (cases e)
  from Cons.prems have m: "m \<notin> set (map fst d)" and d: "distinct (map fst d)"
    by (simp_all add: e)
  show ?case
  proof (cases "m = n")
    case True
    then show ?thesis using Cons.prems by (simp add: e)
  next
    case False
    have "m \<notin> set (map fst (put_file n f d))"
      using m False by (simp only: names_put_file) simp
    then show ?thesis using False Cons.IH [OF d] by (simp add: e)
  qed
qed

lemma readMeta_writeMeta:
  "writeMeta rid meta fs = Inr fs' \<Longrightarrow> readMeta fs' rid = Inr (Some meta)"
  by (auto simp: writeMeta_def writeFileSync_def readMeta_def map_of_put_file
           split: option.splits)

lemma writeMeta_exists:
  "fs rid = Some d \<Longrightarrow> \<exists>fs'. writeMeta rid meta fs = Inr fs'"
  by (simp add: writeMeta_def writeFileSync_def)

lemma readMeta_Some_dir:
  "readMeta fs rid = Inr (Some meta) \<Longrightarrow> \<exists>d. fs rid = Some d"
  by (auto simp: readMeta_def split: option.splits)

lemma find_replace_first:
  "find (\<lambda>s. name s = n) ss = Some s \<Longrightarrow> name s' = n \<Longrightarrow>
   find (\<lambda>s. name s = n) (replace_first n s' ss) = Some s'"
  by (induction ss) (auto split: if_splits)

lemma name_touchStep [simp]: "name (touchStep now st art step) = name step"
  by (simp add: touchStep_def Let_def)

lemma status_touchStep [simp]: "status (touchStep now st art step) = st"
  by (simp add: touchStep_def Let_def)

lemma find_name: "find (\<lambda>s. name s = n) ss = Some s \<Longrightarrow> name s = n"
  by (induction ss) (auto split: if_splits)

section \<open>Step transitions\<close>

lemmas store_defs = orEmpty_def store_created_def store_ctx_done_def createRun_def initialMeta_def
  STEPS_def writeMeta_def writeFileSync_def mkdirSync_def bindE_def updateStep_def readMeta_def
  touchStep_def truthy_opt_def truthy_def writeArtifact_def stepStatus_def Let_def


lemma store_ctx_done_eval: "stepStatus store_ctx_done ''r1'' ''context'' = Some Completed"
  by (simp add: store_defs)

text \<open>
  C1, as stated, fails. In the run \<open>r1\<close> whose context step is completed, a further
  \<^verbatim>\<open>updateStep(r1, "context", "running")\<close> is applied although running is no legal
  successor of completed: the step is running again.
\<close>

theorem updateStep_unchecked_counterexample:
  "stepStatus store_ctx_done ''r1'' ''context'' = Some Completed
   \<and> \<not> legal_successor Completed Running
   \<and> (case updateStep ''t3'' ''r1'' ''context'' Running None store_ctx_done of
        Inl e \<Rightarrow> None
      | Inr fs \<Rightarrow> stepStatus fs ''r1'' ''context'') = Some Running"
  by (simp add: store_defs)

text \<open>
  C1, amended. \<^verbatim>\<open>updateStep\<close> performs no check of the transition. For every run
  and step that exist, \<^verbatim>\<open>updateStep(runId, stepName, s, artifact)\<close> succeeds and sets
  the status of the first step of that name to \<open>s\<close>, whatever its status was; the stored
  record is the old one with that step touched (\<open>startedAt\<close> stamped when \<open>s\<close> is
  running, \<open>completedAt\<close> when it is completed or failed, the artifact name recorded
  when one is given). For a run without a record, or a step name the record does not
  hold, the store is left as it is.
\<close>

theorem updateStep_sets_status:
  "(readMeta fs rid = Inr None \<longrightarrow> updateStep now rid n st art fs = Inr fs)
   \<and> (\<forall>meta. readMeta fs rid = Inr (Some meta) \<longrightarrow>
        (find (\<lambda>s. name s = n) (steps meta) = None \<longrightarrow> updateStep now rid n st art fs = Inr fs)
        \<and> (\<forall>step. find (\<lambda>s. name s = n) (steps meta) = Some step \<longrightarrow>
             (\<exists>fs'. updateStep now rid n st art fs = Inr fs'
                \<and> stepStatus fs' rid n = Some st
                \<and> readMeta fs' rid =
                    Inr (Some (meta\<lparr> steps := replace_first n (touchStep now st art step) (steps meta) \<rparr>)))))"
proof (intro conjI impI allI)
  assume "readMeta fs rid = Inr None"
  then show "updateStep now rid n st art fs = Inr fs"
    by (simp add: updateStep_def bindE_def)
next
  fix meta
  assume "readMeta fs rid = Inr (Some meta)" "find (\<lambda>s. name s = n) (steps meta) = None"
  then show "updateStep now rid n st art fs = Inr fs"
    by (simp add: updateStep_def bindE_def)
next
  fix meta step
  assume m: "readMeta fs rid = Inr (Some meta)"
    and s: "find (\<lambda>s. name s = n) (steps meta) = Some step"
  let ?meta' = "meta\<lparr> steps := replace_first n (touchStep now st art step) (steps meta) \<rparr>"
  from readMeta_Some_dir [OF m] obtain d where "fs rid = Some d" ..
  from writeMeta_exists [of fs rid d ?meta'] this obtain fs' where w: "writeMeta rid ?meta' fs = Inr fs'"
    by blast
  have u: "updateStep now rid n st art fs = Inr fs'"
    using m s w by (simp add: updateStep_def bindE_def)
  have r: "readMeta fs' rid = Inr (Some ?meta')"
    by (rule readMeta_writeMeta [OF w])
  have "name (touchStep now st art step) = n"
    using find_name [OF s] by simp
  from find_replace_first [OF s this]
  have "stepStatus fs' rid n = Some st"
    by (simp add: stepStatus_def r)
  with u r show "\<exists>fs'. updateStep now rid n st art fs = Inr fs'
      \<and> stepStatus fs' rid n = Some st \<and> readMeta fs' rid = Inr (Some ?meta')"
    by blast
qed


text \<open>
  The hypotheses of C1 hold in the run \<open>r1\<close> after step 1: its record has a context
  step, which is completed; the call sets it to running.
\<close>

theorem updateStep_sets_status_witness:
  "readMeta store_ctx_done ''r1'' \<noteq> Inr None
   \<and> stepStatus store_ctx_done ''r1'' ''context'' = Some Completed
   \<and> (\<exists>fs'. updateStep ''t3'' ''r1'' ''context'' Running None store_ctx_done = Inr fs'
         \<and> stepStatus fs' ''r1'' ''context'' = Some Running)"
proof -
  obtain meta where m: "readMeta store_ctx_done ''r1'' = Inr (Some meta)"
    and s: "find (\<lambda>s. name s = ''context'') (steps meta) \<noteq> None"
    and c: "stepStatus store_ctx_done ''r1'' ''context'' = Some Completed"
    by (simp add: store_defs)
  from s obtain step where "find (\<lambda>s. name s = ''context'') (steps meta) = Some step"
    by blast
  with updateStep_sets_status [of store_ctx_done "''r1''" "''t3''" "''context''" Running None] m
  have "\<exists>fs'. updateStep ''t3'' ''r1'' ''context'' Running None store_ctx_done = Inr fs'
         \<and> stepStatus fs' ''r1'' ''context'' = Some Running"
    by blast
  with m c show ?thesis by simp
qed

section \<open>Completing a run\<close>

lemma completeRun_existing:
  assumes "readMeta fs rid = Inr (Some meta)"
  shows "\<exists>fs'. completeRun now rid res fs = Inr fs'
            \<and> readMeta fs' rid = Inr (Some (finishMeta now res meta))"
proof -
  from readMeta_Some_dir [OF assms] obtain d where "fs rid = Some d" ..
  from writeMeta_exists [of fs rid d "finishMeta now res meta"] this
  obtain fs' where w: "writeMeta rid (finishMeta now res meta) fs = Inr fs'" by blast
  have "completeRun now rid res fs = Inr fs'"
    using assms w by (simp add: completeRun_def bindE_def)
  with readMeta_writeMeta [OF w] show ?thesis by blast
qed

lemma completeAll_existing:
  "readMeta fs rid = Inr (Some meta) \<Longrightarrow>
   \<exists>fs' meta'. completeAll cs rid fs = Inr fs' \<and> readMeta fs' rid = Inr (Some meta')"
proof (induction cs arbitrary: fs meta)
  case Nil
  then show ?case by simp
next
  case (Cons c cs)
  obtain now res where c: "c = (now, res)" by (cases c)
  from completeRun_existing [OF Cons.prems, of now res]
  obtain fs1 where 1: "completeRun now rid res fs = Inr fs1"
    and 2: "readMeta fs1 rid = Inr (Some (finishMeta now res meta))" by blast
  from Cons.IH [OF 2] show ?case by (simp add: c 1 bindE_def)
qed

lemma completeAll_append:
  "completeAll (cs @ ds) rid fs = bindE (completeAll cs rid fs) (completeAll ds rid)"
proof (induction cs arbitrary: fs)
  case Nil
  show ?case by (simp add: bindE_def)
next
  case (Cons c cs)
  obtain now res where c: "c = (now, res)" by (cases c)
  show ?case
    by (cases "completeRun now rid res fs") (simp_all add: c bindE_def Cons.IH)
qed

lemma finishMeta_fields:
  "runStatus (finishMeta now res m) = (if truthy_opt (res_error res) then RunFailed else RunCompleted)"
  "runCompletedAt (finishMeta now res m) = Some now"
  "run_echoId (finishMeta now res m) = (if truthy_opt (res_echoId res) then res_echoId res else run_echoId m)"
  "run_error (finishMeta now res m) = (if truthy_opt (res_error res) then res_error res else run_error m)"
  "steps (finishMeta now res m) = steps m"
  "runId (finishMeta now res m) = runId m"
  "runStartedAt (finishMeta now res m) = runStartedAt m"
  by (simp_all add: finishMeta_def Let_def)

text \<open>
  C2, as stated, fails. After \<^verbatim>\<open>completeRun(r1, {error: "boom"})\<close> followed by
  \<^verbatim>\<open>completeRun(r1, {echoId: "e1"})\<close> the last call carries no error and the run is
  completed, yet the record still holds the error of the earlier call.
\<close>

theorem completeRun_last_call_counterexample:
  "map_option run_error
     (finalMeta (completeAll [(''t1'', \<lparr> res_echoId = None, res_error = Some ''boom'' \<rparr>),
                              (''t2'', \<lparr> res_echoId = Some ''e1'', res_error = None \<rparr>)]
                   ''r1'' store_created) ''r1'') = Some (Some ''boom'')
   \<and> map_option runStatus
     (finalMeta (completeAll [(''t1'', \<lparr> res_echoId = None, res_error = Some ''boom'' \<rparr>),
                              (''t2'', \<lparr> res_echoId = Some ''e1'', res_error = None \<rparr>)]
                   ''r1'' store_created) ''r1'') = Some RunCompleted"
  by (simp add: store_defs finalMeta_def completeRun_def finishMeta_def)

text \<open>
  C2, amended. After any sequence of \<^verbatim>\<open>completeRun\<close> calls on a run that has a record,
  ending with a call at time \<open>now\<close> with result \<open>res\<close>: every call succeeds, the record
  has one terminal status, failed when the last call carries a non-empty error and
  completed otherwise, \<open>completedAt\<close> is the time of the last call, and a non-empty
  \<open>error\<close> or \<open>echoId\<close> of the last call replaces the stored one. A field the last call
  does not carry (or carries empty) keeps the value the earlier calls left (\<open>mP\<close> is
  the record before the last call). Steps, run id and start time are untouched.
\<close>

theorem completeRun_last_write_wins:
  assumes "readMeta fs rid = Inr (Some m0)"
  shows "\<exists>fsP mP fsN mN.
           completeAll cs rid fs = Inr fsP \<and> readMeta fsP rid = Inr (Some mP)
         \<and> completeAll (cs @ [(now, res)]) rid fs = Inr fsN \<and> readMeta fsN rid = Inr (Some mN)
         \<and> runStatus mN = (if truthy_opt (res_error res) then RunFailed else RunCompleted)
         \<and> runCompletedAt mN = Some now
         \<and> run_echoId mN = (if truthy_opt (res_echoId res) then res_echoId res else run_echoId mP)
         \<and> run_error mN = (if truthy_opt (res_error res) then res_error res else run_error mP)
         \<and> steps mN = steps mP \<and> runId mN = runId mP \<and> runStartedAt mN = runStartedAt mP"
proof -
  from completeAll_existing [OF assms, of cs]
  obtain fsP mP where p: "completeAll cs rid fs = Inr fsP"
    and rp: "readMeta fsP rid = Inr (Some mP)" by blast
  from completeRun_existing [OF rp, of now res]
  obtain fsN where n: "completeRun now rid res fsP = Inr fsN"
    and rn: "readMeta fsN rid = Inr (Some (finishMeta now res mP))" by blast
  have "completeAll (cs @ [(now, res)]) rid fs = Inr fsN"
    by (simp add: completeAll_append p n bindE_def)
  with p rp rn show ?thesis
    by (simp add: finishMeta_fields)
qed

text \<open>
  The hypothesis of C2 holds for the run \<open>r1\<close> just created; two calls, both with an
  error, the second also with an echo id.
\<close>

theorem completeRun_last_write_wins_witness:
  "readMeta store_created ''r1'' = Inr (Some (initialMeta ''t0'' ''r1''))
   \<and> (\<exists>fsN mN. completeAll ([(''t1'', \<lparr> res_echoId = None, res_error = Some ''boom'' \<rparr>)]
                     @ [(''t2'', \<lparr> res_echoId = Some ''e1'', res_error = Some ''late'' \<rparr>)]) ''r1'' store_created = Inr fsN
        \<and> readMeta fsN ''r1'' = Inr (Some mN)
        \<and> runStatus mN = RunFailed \<and> runCompletedAt mN = Some ''t2''
        \<and> run_echoId mN = Some ''e1'' \<and> run_error mN = Some ''late'')"
proof -
  have h: "readMeta store_created ''r1'' = Inr (Some (initialMeta ''t0'' ''r1''))"
    by (simp add: store_defs)
  from completeRun_last_write_wins [OF h,
      of "[(''t1'', \<lparr> res_echoId = None, res_error = Some ''boom'' \<rparr>)]" "''t2''"
         "\<lparr> res_echoId = Some ''e1'', res_error = Some ''late'' \<rparr>"]
  show ?thesis using h by (auto simp: truthy_opt_def truthy_def)
qed

section \<open>Creating a run\<close>

text \<open>
  C4, as stated, fails. The run \<open>r1\<close> has a record whose context step is completed;
  \<^verbatim>\<open>createRun("r1")\<close> returns normally and the record read afterwards has the context
  step pending again: no DuplicateRun, and the existing record is replaced.
\<close>

theorem createRun_duplicate_counterexample:
  "stepStatus store_ctx_done ''r1'' ''context'' = Some Completed
   \<and> (case createRun ''t9'' ''r1'' store_ctx_done of
        Inl e \<Rightarrow> None
      | Inr (fs, m) \<Rightarrow> Some (stepStatus fs ''r1'' ''context'')) = Some (Some Pending)"
  by (simp add: store_defs)

lemma mkdirSync_dir: "\<exists>d. mkdirSync rid fs rid = Some d"
  by (simp add: mkdirSync_def split: option.splits)

text \<open>
  C4, amended. \<^verbatim>\<open>createRun\<close> never fails on a run id, fresh or already recorded: it
  returns the initial record (the fixed steps in order, each pending, status running,
  \<open>startedAt = now\<close>, no \<open>completedAt\<close>), a read that follows returns exactly that
  record, and the other files of an existing run directory are kept. An existing
  record is overwritten.
\<close>

theorem createRun_initialises:
  "\<exists>fs'. createRun now rid fs = Inr (fs', initialMeta now rid)
        \<and> readMeta fs' rid = Inr (Some (initialMeta now rid))
        \<and> runId (initialMeta now rid) = rid
        \<and> runStatus (initialMeta now rid) = RunRunning
        \<and> runStartedAt (initialMeta now rid) = now
        \<and> runCompletedAt (initialMeta now rid) = None
        \<and> map name (steps (initialMeta now rid)) = STEPS
        \<and> map status (steps (initialMeta now rid)) = replicate (length STEPS) Pending
        \<and> readArtifact fs' rid = (readArtifact fs rid)(''meta.json'' \<mapsto> MetaJson (initialMeta now rid))"
proof -
  obtain d where d: "mkdirSync rid fs rid = Some d"
    using mkdirSync_dir by blast
  from writeMeta_exists [of "mkdirSync rid fs" rid d "initialMeta now rid"] d
  obtain fs' where w: "writeMeta rid (initialMeta now rid) (mkdirSync rid fs) = Inr fs'" by blast
  have c: "createRun now rid fs = Inr (fs', initialMeta now rid)"
    by (simp add: createRun_def Let_def w bindE_def)
  have fs': "fs' = (mkdirSync rid fs)(rid \<mapsto> put_file ''meta.json'' (MetaJson (initialMeta now rid)) d)"
    using w d by (simp add: writeMeta_def writeFileSync_def)
  have a: "readArtifact fs' rid = (readArtifact fs rid)(''meta.json'' \<mapsto> MetaJson (initialMeta now rid))"
    using d
    by (cases "fs rid") (auto simp: fs' readArtifact_def mkdirSync_def map_of_put_file fun_eq_iff)
  have s: "map status (steps (initialMeta now rid)) = replicate (length STEPS) Pending"
    by (simp add: initialMeta_def STEPS_def)
  have n: "map name (steps (initialMeta now rid)) = STEPS"
    by (simp add: initialMeta_def comp_def)
  show ?thesis
    using c readMeta_writeMeta [OF w] a s n by (simp add: initialMeta_def)
qed

section \<open>Listing the artifacts of a run\<close>

lemma split_slash_plain: "CHR ''/'' \<notin> set s \<Longrightarrow> split_slash s = [s]"
  by (induction s) auto

lemma normalizeSegments_append:
  "normalizeSegments isAbs res (xs @ ys)
     = normalizeSegments isAbs (normalizeSegments isAbs res xs) ys"
  by (induction xs arbitrary: res) auto

text \<open>Joining a single segment appends it.\<close>

lemma join_plain:
  assumes "plainName s"
  shows "join p s
           = \<lparr> isAbsolute = isAbsolute p, segments = segments p @ [s], trailingSlash = False \<rparr>"
proof -
  from assms have "split_slash s = [s]" by (simp add: plainName_def split_slash_plain)
  moreover have "last s \<noteq> CHR ''/''"
  proof
    assume "last s = CHR ''/''"
    moreover from assms have "last s \<in> set s" by (simp add: plainName_def)
    ultimately show False using assms by (simp add: plainName_def)
  qed
  ultimately show ?thesis using assms by (simp add: join_def plainName_def)
qed

lemma resolve_plain:
  assumes "plainName s"
  shows "resolve cwd (join p s) = resolve cwd p @ [s]"
proof -
  have "normalizeSegments True cwd (segments p @ [s])
          = normalizeSegments True cwd (segments p) @ [s]"
    using assms by (simp add: normalizeSegments_append plainName_def)
  then show ?thesis by (simp add: join_plain [OF assms] resolve_def)
qed

lemma sort_distinct_names:
  assumes "distinct ns"
  shows "sort ns = sorted_list_of_set (set ns)"
proof -
  have "sort ns = sort (remdups ns)" using assms by (simp add: distinct_remdups_id)
  also have "\<dots> = sorted_list_of_set (set ns)" by (simp only: sorted_list_of_set_sort_remdups)
  finally show ?thesis .
qed

text \<open>
  C9, as stated, fails: the claim speaks of every run id, and \<^verbatim>\<open>loretech_inspect\<close>
  passes any string. With the run \<open>r1\<close> as the only run, the id \<^verbatim>\<open>r1/meta.json\<close>
  makes \<^verbatim>\<open>listArtifacts\<close> throw (the path exists, and \<^verbatim>\<open>readdirSync\<close> of a regular
  file raises \<open>ENOTDIR\<close>), as does the name of a regular file of the runs directory:
  the result is neither a list of names nor the empty list. The empty id lists the
  runs directory and the id \<^verbatim>\<open>..\<close> the directory \<^verbatim>\<open>.loretech\<close>: no run has these
  ids, and the result is not empty.
\<close>

theorem listArtifacts_any_string_counterexample:
  "listArtifacts tree_home cwd_proj ''/home/u'' ''r1/meta.json'' = Inl ENOTDIR
   \<and> listArtifacts tree_home cwd_proj ''/home/u'' ''notes.txt'' = Inl ENOTDIR
   \<and> listArtifacts tree_home cwd_proj ''/home/u'' [] = Inr [''notes.txt'', ''r1'']
   \<and> listArtifacts tree_home cwd_proj ''/home/u'' ''..'' = Inr [''echoes'', ''runs'']"
  by code_simp

text \<open>
  C9, amended. For every run id that is a single path segment (not empty, not
  \<^verbatim>\<open>.\<close> or \<^verbatim>\<open>..\<close>, without a slash), in every file system, \<^verbatim>\<open>listArtifacts\<close> looks
  at the entry of that name in the runs directory:

  when the entry, or the runs directory, does not exist, the result is the empty
  list;

  when the entry is a directory, the result is exactly the names of its entries in
  lexicographic order: it is sorted, it has the same names, and, the names of a
  directory being distinct, it is the sorted list of the set of names, each once, so
  it does not depend on the order the directory reports them in;

  when the entry is a regular file, the call throws \<open>ENOTDIR\<close>.
\<close>

theorem listArtifacts_plain_id:
  assumes "plainName rid"
  shows "(\<forall>e. lookup root (resolve cwd (runsDir root cwd home) @ [rid]) = Inl e
            \<longrightarrow> listArtifacts root cwd home rid = Inr [])
       \<and> (\<forall>c. lookup root (resolve cwd (runsDir root cwd home) @ [rid]) = Inr (File c)
            \<longrightarrow> listArtifacts root cwd home rid = Inl ENOTDIR)
       \<and> (\<forall>es. lookup root (resolve cwd (runsDir root cwd home) @ [rid]) = Inr (Dir es)
            \<longrightarrow> listArtifacts root cwd home rid = Inr (sort (map fst es))
              \<and> sorted (sort (map fst es))
              \<and> set (sort (map fst es)) = fst ` set es
              \<and> (distinct (map fst es)
                   \<longrightarrow> distinct (sort (map fst es))
                     \<and> sort (map fst es) = sorted_list_of_set (fst ` set es)))"
proof -
  have r: "resolve cwd (runDir root cwd home rid)
             = resolve cwd (runsDir root cwd home) @ [rid]"
    unfolding runDir_def by (rule resolve_plain [OF assms])
  have t: "\<not> trailingSlash (runDir root cwd home rid)"
    unfolding runDir_def by (simp add: join_plain [OF assms])
  have d: "distinct (map fst es) \<Longrightarrow> sort (map fst es) = sorted_list_of_set (fst ` set es)"
    for es :: "(string \<times> node) list"
    using sort_distinct_names [of "map fst es"] by simp
  show ?thesis
    using r t d by (simp add: listArtifacts_def existsSync_def readdirSync_def bindE_def Let_def)
qed

text \<open>
  In the example file system the run \<open>r1\<close> lists \<^verbatim>\<open>context.json\<close> before
  \<^verbatim>\<open>meta.json\<close>, an unknown run lists nothing, and the regular file of the runs
  directory makes the call throw.
\<close>

theorem listArtifacts_plain_id_witness:
  "plainName ''r1'' \<and> plainName ''nowhere'' \<and> plainName ''notes.txt''
   \<and> lookup tree_home (resolve cwd_proj (runsDir tree_home cwd_proj ''/home/u'') @ [''r1''])
       = Inr (Dir [(''meta.json'', File (MetaJson (initialMeta ''t'' ''r1''))),
                   (''context.json'', File (ContextJson stored_aux))])
   \<and> listArtifacts tree_home cwd_proj ''/home/u'' ''r1'' = Inr [''context.json'', ''meta.json'']
   \<and> lookup tree_home (resolve cwd_proj (runsDir tree_home cwd_proj ''/home/u'') @ [''nowhere''])
       = Inl ENOENT
   \<and> listArtifacts tree_home cwd_proj ''/home/u'' ''nowhere'' = Inr []
   \<and> lookup tree_home (resolve cwd_proj (runsDir tree_home cwd_proj ''/home/u'') @ [''notes.txt''])
       = Inr (File (Text ''hello''))
   \<and> listArtifacts tree_home cwd_proj ''/home/u'' ''notes.txt'' = Inl ENOTDIR"
proof -
  have p: "plainName ''r1''" "plainName ''nowhere''" "plainName ''notes.txt''"
    by (simp_all add: plainName_def)
  have l1: "lookup tree_home (resolve cwd_proj (runsDir tree_home cwd_proj ''/home/u'') @ [''r1''])
       = Inr (Dir [(''meta.json'', File (MetaJson (initialMeta ''t'' ''r1''))),
                   (''context.json'', File (ContextJson stored_aux))])"
    by code_simp
  have l2: "lookup tree_home (resolve cwd_proj (runsDir tree_home cwd_proj ''/home/u'') @ [''nowhere''])
       = Inl ENOENT"
    by code_simp
  have l3: "lookup tree_home (resolve cwd_proj (runsDir tree_home cwd_proj ''/home/u'') @ [''notes.txt''])
       = Inr (File (Text ''hello''))"
    by code_simp
  have s: "sort [''meta.json'', ''context.json''] = [''context.json'', ''meta.json'']"
    by code_simp
  from listArtifacts_plain_id [OF p(1), of tree_home cwd_proj "''/home/u''"] l1 s
  have a1: "listArtifacts tree_home cwd_proj ''/home/u'' ''r1'' = Inr [''context.json'', ''meta.json'']"
    by simp
  from listArtifacts_plain_id [OF p(2), of tree_home cwd_proj "''/home/u''"] l2
  have a2: "listArtifacts tree_home cwd_proj ''/home/u'' ''nowhere'' = Inr []"
    by simp
  from listArtifacts_plain_id [OF p(3), of tree_home cwd_proj "''/home/u''"] l3
  have a3: "listArtifacts tree_home cwd_proj ''/home/u'' ''notes.txt'' = Inl ENOTDIR"
    by simp
  from p l1 l2 l3 a1 a2 a3 show ?thesis by simp
qed

section \<open>The echo catalog: writing and reading back\<close>

lemma echoFile_quotesRef:
  "echoFile quotesRef False =
     joinLines [''---'', ''echoId: echo-quotes'', ''privateKey: pk_xyz'',
                ''title: '' @ [DQ] @ ''Title with '' @ [BSL, DQ] @ ''quotes'' @ [BSL, DQ] @ '' inside'' @ [DQ],
                ''status: published'', ''createdAt: 2026-02-26T00:00:00Z'',
                ''updatedAt: 2026-02-26T00:00:00Z'', ''---'', []]"
  by code_simp

text \<open>
  C5. The code at the input of its own test: the reference with the title
  \<^verbatim>\<open>Title with "quotes" inside\<close> is written by \<^verbatim>\<open>writeEchoRef\<close> into an empty
  echoes directory and read back by \<^verbatim>\<open>readEchoRefs\<close>. The title that comes back
  has a backslash before each quote (\<^verbatim>\<open>writeEchoRef\<close> escapes, \<^verbatim>\<open>parseEchoRef\<close> only
  strips the outer quotes), so the supplied \<^verbatim>\<open>"quotes"\<close> does not occur in it. The
  neighbouring fields come back as written.
\<close>

theorem title_with_quotes_roundtrip:
  "map title (readEchoRefs (\<lambda>a b. 0) (writeEchoRef quotesRef None (Some [])))
     = [''Title with '' @ [BSL, DQ] @ ''quotes'' @ [BSL, DQ] @ '' inside'']
   \<and> index_of ([DQ] @ ''quotes'' @ [DQ])
         (''Title with '' @ [BSL, DQ] @ ''quotes'' @ [BSL, DQ] @ '' inside'') = None
   \<and> title quotesRef = ''Title with '' @ [DQ] @ ''quotes'' @ [DQ] @ '' inside''
   \<and> map ref_echoId (readEchoRefs (\<lambda>a b. 0) (writeEchoRef quotesRef None (Some []))) = [''echo-quotes'']
   \<and> map ref_status (readEchoRefs (\<lambda>a b. 0) (writeEchoRef quotesRef None (Some []))) = [''published'']"
  by code_simp

text \<open>
  C10. The code at five files. The file \<^verbatim>\<open>writeEchoRef\<close> writes for a reference with
  an empty status, and a file with an empty \<^verbatim>\<open>status:\<close> line followed by another
  line: the status read is the text of the next line, not \<^verbatim>\<open>draft\<close> (the \<^verbatim>\<open>\s*\<close>
  of the pattern runs over the line break). A file with no status line: \<^verbatim>\<open>draft\<close>.
  A file with no \<^verbatim>\<open>echoId\<close> line: no record. A file with an empty \<^verbatim>\<open>echoId:\<close>
  line: a record whose id is the text of the next line.
\<close>

theorem empty_status_not_draft:
  "map ref_status (readEchoRefs (\<lambda>a b. 0) (writeEchoRef emptyStatusRef None (Some [])))
     = [''createdAt: 2026-02-26T00:00:00Z'']
   \<and> map_option ref_status
        (parseEchoRef (joinLines [''---'', ''echoId: e1'', ''privateKey: k1'', ''status: '',
                                  ''updatedAt: 2026-02-27'', ''---'', ''body'']))
     = Some ''updatedAt: 2026-02-27''
   \<and> map_option ref_status
        (parseEchoRef (joinLines [''---'', ''echoId: e1'', ''privateKey: k1'',
                                  ''updatedAt: 2026-02-27'', ''---'', ''body'']))
     = Some ''draft''
   \<and> parseEchoRef (joinLines [''---'', ''privateKey: k1'', ''status: draft'', ''---'', ''body'']) = None
   \<and> map_option ref_echoId
        (parseEchoRef (joinLines [''---'', ''echoId: '', ''privateKey: k1'', ''status: draft'', ''---'', ''body'']))
     = Some ''privateKey: k1''"
  by code_simp

section \<open>The background poll\<close>

text \<open>
  C3. The code in the world where the poll of run \<open>r1\<close> was started with the webset
  step running. When every reply of the engine is a non-success response, the first
  call of \<^verbatim>\<open>poll\<close> returns at \<^verbatim>\<open>if (!res.ok) return;\<close> without setting another timer
  and without touching the step: the step is still running when the loop has ended.
  The same happens when the third reply is the non-success one and the calls before
  it only met request errors. When every call meets a request error, the loop runs
  its 30 attempts and the step is completed.
\<close>

theorem poll_not_ok_leaves_running:
  "stepStatus (w_runs world_polling) ''r1'' ''webset'' = Some Running
   \<and> stepStatus (w_runs (pollWebsetDataset (\<lambda>n. PollNotOk) (\<lambda>n. ''t'') ''e1'' ''r1'' world_polling))
        ''r1'' ''webset'' = Some Running
   \<and> stepStatus (w_runs (pollWebsetDataset (\<lambda>n. if n = 3 then PollNotOk else PollFetchThrows)
                             (\<lambda>n. ''t'') ''e1'' ''r1'' world_polling))
        ''r1'' ''webset'' = Some Running
   \<and> stepStatus (w_runs (pollWebsetDataset (\<lambda>n. PollFetchThrows) (\<lambda>n. ''t'') ''e1'' ''r1''
                             world_polling))
        ''r1'' ''webset'' = Some Completed"
  by code_simp

section \<open>The handler of loretech_echo: a failing engine\<close>

lemma mkdirSync_apply:
  "mkdirSync rid fs rid = Some (case fs rid of None \<Rightarrow> [] | Some d \<Rightarrow> d)"
  by (simp add: mkdirSync_def split: option.splits)

lemmas io_defs = bindIO_def throwIO_def returnIO_def onRuns_def fetch_def schedulePoll_def

lemmas run_defs = loretech_echo_def captureContext_def tryCatch_def echoTry_def engineFailed_def
  lookupAuth_def io_defs createRun_def updateStep_def completeRun_def writeArtifact_def
  writeMeta_def writeFileSync_def readMeta_def bindE_def mkdirSync_apply map_of_put_file
  initialMeta_def STEPS_def touchStep_def finishMeta_def Let_def truthy_opt_def truthy_def

text \<open>
  C7, as stated, fails. The engine answers 500 and reading the body of the reply
  raises (\<^verbatim>\<open>await res.text()\<close> stands before \<^verbatim>\<open>updateStep(runId, "sources", "failed")\<close>
  in the \<^verbatim>\<open>try\<close> block). The \<^verbatim>\<open>catch\<close> block records the message and the handler
  returns a failure, the run is failed, but the sources step was never set to failed:
  it is still running.
\<close>

theorem engine_failure_unread_body_counterexample:
  "fst (loretech_echo (\<lambda>s. False) (\<lambda>s. ''t'') (\<lambda>a b. 0) ''r1'' env_ok args_A
          (\<lambda>req. NotOkNoText ''500'' ''body stream failed'') world_empty)
     = Returned (Failure ''body stream failed'')
   \<and> stepStatus (w_runs (snd (loretech_echo (\<lambda>s. False) (\<lambda>s. ''t'') (\<lambda>a b. 0) ''r1'' env_ok args_A
                                (\<lambda>req. NotOkNoText ''500'' ''body stream failed'') world_empty)))
        ''r1'' ''sources'' = Some Running
   \<and> map_option runStatus
        (finalMeta (Inr (w_runs (snd (loretech_echo (\<lambda>s. False) (\<lambda>s. ''t'') (\<lambda>a b. 0) ''r1'' env_ok
                                       args_A (\<lambda>req. NotOkNoText ''500'' ''body stream failed'')
                                       world_empty)))) ''r1'') = Some RunFailed"
  by code_simp

text \<open>
  C7, amended. With the keys configured and a storage layer that does not fail, in
  any world, for any arguments and run id:

  when the engine answers with a non-success response whose body text can be read
  (status \<open>st\<close>, body \<open>txt\<close>), the handler returns the failure result, and the record
  of the run has status failed with the error recorded by \<^verbatim>\<open>completeRun\<close>, the
  context step completed, the sources step failed, and the steps compose, store,
  record and webset still pending, without a start or completion time: none of them
  was started or completed;

  when reading the body of the non-success response raises with the message
  \<open>msg\<close>, the handler returns a failure result with that message, which is recorded
  by \<^verbatim>\<open>completeRun\<close> (the run is failed when the message is not empty), and the steps
  compose, store, record and webset are still pending in the same way; the sources
  step is not set to failed, it stays running.
\<close>

theorem engine_failure_outcome:
  assumes "keysPresent env"
  shows "(\<exists>w' m. loretech_echo (\<lambda>s. False) clock lc rid env args (\<lambda>req. NotOk st txt) w
                  = (Returned (EngineFailure st txt), w')
         \<and> isError (EngineFailure st txt)
         \<and> readMeta (w_runs w') rid = Inr (Some m)
         \<and> runStatus m = RunFailed
         \<and> run_error m = Some (''Engine returned '' @ st @ '': '' @ txt)
         \<and> map name (steps m) = STEPS
         \<and> map status (steps m) = [Completed, Failed, Pending, Pending, Pending, Pending]
         \<and> map startedAt (steps m)
             = [Some (clock CtxRunning), Some (clock SrcRunning), None, None, None, None]
         \<and> map completedAt (steps m)
             = [Some (clock CtxCompleted), Some (clock SrcFailed), None, None, None, None])
       \<and> (\<exists>w' m. loretech_echo (\<lambda>s. False) clock lc rid env args (\<lambda>req. NotOkNoText st msg) w
                  = (Returned (Failure msg), w')
         \<and> isError (Failure msg)
         \<and> readMeta (w_runs w') rid = Inr (Some m)
         \<and> runStatus m = (if msg \<noteq> [] then RunFailed else RunCompleted)
         \<and> run_error m = (if msg \<noteq> [] then Some msg else None)
         \<and> map name (steps m) = STEPS
         \<and> map status (steps m) = [Completed, Running, Pending, Pending, Pending, Pending]
         \<and> map startedAt (steps m)
             = [Some (clock CtxRunning), Some (clock SrcRunning), None, None, None, None]
         \<and> map completedAt (steps m)
             = [Some (clock CtxCompleted), None, None, None, None, None])"
proof (rule conjI)
  show "\<exists>w' m. loretech_echo (\<lambda>s. False) clock lc rid env args (\<lambda>req. NotOk st txt) w
                  = (Returned (EngineFailure st txt), w')
         \<and> isError (EngineFailure st txt)
         \<and> readMeta (w_runs w') rid = Inr (Some m)
         \<and> runStatus m = RunFailed
         \<and> run_error m = Some (''Engine returned '' @ st @ '': '' @ txt)
         \<and> map name (steps m) = STEPS
         \<and> map status (steps m) = [Completed, Failed, Pending, Pending, Pending, Pending]
         \<and> map startedAt (steps m)
             = [Some (clock CtxRunning), Some (clock SrcRunning), None, None, None, None]
         \<and> map completedAt (steps m)
             = [Some (clock CtxCompleted), Some (clock SrcFailed), None, None, None, None]"
    using assms by (simp add: run_defs split: option.splits)
next
  show "\<exists>w' m. loretech_echo (\<lambda>s. False) clock lc rid env args (\<lambda>req. NotOkNoText st msg) w
                  = (Returned (Failure msg), w')
         \<and> isError (Failure msg)
         \<and> readMeta (w_runs w') rid = Inr (Some m)
         \<and> runStatus m = (if msg \<noteq> [] then RunFailed else RunCompleted)
         \<and> run_error m = (if msg \<noteq> [] then Some msg else None)
         \<and> map name (steps m) = STEPS
         \<and> map status (steps m) = [Completed, Running, Pending, Pending, Pending, Pending]
         \<and> map startedAt (steps m)
             = [Some (clock CtxRunning), Some (clock SrcRunning), None, None, None, None]
         \<and> map completedAt (steps m)
             = [Some (clock CtxCompleted), None, None, None, None, None]"
    using assms by (simp add: run_defs split: option.splits)
qed

text \<open>
  The hypothesis of C7 holds for an environment with the three keys; the engine
  answers 500, once with a body that can be read and once with one that cannot.
\<close>

theorem engine_failure_outcome_witness:
  "keysPresent env_ok
   \<and> (\<exists>w' m. loretech_echo (\<lambda>s. False) (\<lambda>s. ''t'') (\<lambda>a b. 0) ''r1'' env_ok args_A
                 (\<lambda>req. NotOk ''500'' ''boom'') world_empty
                  = (Returned (EngineFailure ''500'' ''boom''), w')
         \<and> readMeta (w_runs w') ''r1'' = Inr (Some m)
         \<and> runStatus m = RunFailed
         \<and> run_error m = Some ''Engine returned 500: boom''
         \<and> map status (steps m) = [Completed, Failed, Pending, Pending, Pending, Pending])
   \<and> (\<exists>w' m. loretech_echo (\<lambda>s. False) (\<lambda>s. ''t'') (\<lambda>a b. 0) ''r1'' env_ok args_A
                 (\<lambda>req. NotOkNoText ''500'' ''body stream failed'') world_empty
                  = (Returned (Failure ''body stream failed''), w')
         \<and> readMeta (w_runs w') ''r1'' = Inr (Some m)
         \<and> runStatus m = RunFailed
         \<and> run_error m = Some ''body stream failed''
         \<and> map status (steps m) = [Completed, Running, Pending, Pending, Pending, Pending])"
proof -
  have k: "keysPresent env_ok"
    by (simp add: keysPresent_def env_ok_def truthy_opt_def truthy_def)
  from engine_failure_outcome [OF k, of "\<lambda>s. ''t''" "\<lambda>a b. 0" "''r1''" args_A "''500''" "''boom''"
      world_empty "''body stream failed''"]
  show ?thesis using k by auto
qed

section \<open>What the writes of a handler keep\<close>

subsection \<open>In the runs directory\<close>

lemma readArtifact_writeFileSync:
  "writeFileSync rid n f fs = Inr fs' \<Longrightarrow>
   readArtifact fs' rid' n' = (if rid' = rid \<and> n' = n then Some f else readArtifact fs rid' n')"
  by (cases "fs rid") (auto simp: writeFileSync_def readArtifact_def map_of_put_file)

lemma readMeta_readArtifact:
  "readMeta fs rid =
     (case readArtifact fs rid ''meta.json'' of
        None \<Rightarrow> Inr None
      | Some (MetaJson m) \<Rightarrow> Inr (Some m)
      | Some _ \<Rightarrow> Inl SyntaxError)"
  by (simp add: readMeta_def readArtifact_def split: option.splits)

lemma hasMeta_iff: "hasMeta rid fs \<longleftrightarrow> (\<exists>m. readMeta fs rid = Inr (Some m))"
  by (auto simp: hasMeta_def split: sum.splits option.splits)

lemma updateStep_cases:
  "updateStep now rid n st art fs = Inr fs' \<Longrightarrow> fs' = fs \<or> (\<exists>m'. writeMeta rid m' fs = Inr fs')"
  by (auto simp: updateStep_def bindE_def split: sum.splits option.splits)

lemma completeRun_cases:
  "completeRun now rid res fs = Inr fs' \<Longrightarrow> fs' = fs \<or> (\<exists>m'. writeMeta rid m' fs = Inr fs')"
  by (auto simp: completeRun_def bindE_def split: sum.splits option.splits)

lemma hasMeta_writeMeta: "writeMeta rid m fs = Inr fs' \<Longrightarrow> hasMeta rid fs'"
  by (simp add: hasMeta_iff readMeta_writeMeta)

lemma hasMeta_writeArtifact:
  "hasMeta rid fs \<Longrightarrow> n \<noteq> ''meta.json'' \<Longrightarrow> writeArtifact rid n c fs = Inr fs' \<Longrightarrow> hasMeta rid fs'"
  by (simp add: hasMeta_def readMeta_readArtifact writeArtifact_def readArtifact_writeFileSync)

lemma stableR_hasMeta: "stableR rid (hasMeta rid)"
  unfolding stableR_def
proof (intro conjI allI impI)
  fix now n st art r r'
  assume "hasMeta rid r" "updateStep now rid n st art r = Inr r'"
  then show "hasMeta rid r'"
    using updateStep_cases hasMeta_writeMeta by blast
next
  fix now res r r'
  assume "hasMeta rid r" "completeRun now rid res r = Inr r'"
  then show "hasMeta rid r'"
    using completeRun_cases hasMeta_writeMeta by blast
next
  fix c r r'
  assume "hasMeta rid r" "writeArtifact rid ''sources.json'' c r = Inr r'"
  then show "hasMeta rid r'"
    using hasMeta_writeArtifact [of rid r "''sources.json''" c r'] by simp
next
  fix c r r'
  assume "hasMeta rid r" "writeArtifact rid ''echo.md'' c r = Inr r'"
  then show "hasMeta rid r'"
    using hasMeta_writeArtifact [of rid r "''echo.md''" c r'] by simp
qed

lemma context_writeMeta:
  "writeMeta rid m fs = Inr fs' \<Longrightarrow>
   readArtifact fs' rid ''context.json'' = readArtifact fs rid ''context.json''"
  by (simp add: writeMeta_def readArtifact_writeFileSync)

lemma stableR_context: "stableR rid (\<lambda>r. readArtifact r rid ''context.json'' = Some c)"
  unfolding stableR_def
proof (intro conjI allI impI)
  fix now n st art r r'
  assume "readArtifact r rid ''context.json'' = Some c" "updateStep now rid n st art r = Inr r'"
  then show "readArtifact r' rid ''context.json'' = Some c"
    using updateStep_cases [of now rid n st art r r'] context_writeMeta [of rid _ r r'] by auto
next
  fix now res r r'
  assume "readArtifact r rid ''context.json'' = Some c" "completeRun now rid res r = Inr r'"
  then show "readArtifact r' rid ''context.json'' = Some c"
    using completeRun_cases [of now rid res r r'] context_writeMeta [of rid _ r r'] by auto
next
  fix v r r'
  assume "readArtifact r rid ''context.json'' = Some c" "writeArtifact rid ''sources.json'' v r = Inr r'"
  then show "readArtifact r' rid ''context.json'' = Some c"
    by (simp add: writeArtifact_def readArtifact_writeFileSync)
next
  fix v r r'
  assume "readArtifact r rid ''context.json'' = Some c" "writeArtifact rid ''echo.md'' v r = Inr r'"
  then show "readArtifact r' rid ''context.json'' = Some c"
    by (simp add: writeArtifact_def readArtifact_writeFileSync)
qed

subsection \<open>In the world\<close>

lemma preserves_bindIO:
  assumes "preserves P m" and "\<And>x. preserves P (f x)"
  shows "preserves P (bindIO m f)"
  unfolding preserves_def
proof (intro allI impI)
  fix w assume p: "P w"
  with assms(1) have 1: "P (snd (m w))" by (simp add: preserves_def)
  show "P (snd (bindIO m f w))"
  proof (cases "m w")
    case (Pair r w')
    show ?thesis
    proof (cases r)
      case (Inl e)
      with Pair 1 show ?thesis by (simp add: bindIO_def)
    next
      case (Inr x)
      with Pair 1 assms(2) [of x] show ?thesis by (simp add: bindIO_def preserves_def)
    qed
  qed
qed

lemma preserves_returnIO: "preserves P (returnIO x)"
  by (simp add: preserves_def returnIO_def)

lemma preserves_throwIO: "preserves P (throwIO e)"
  by (simp add: preserves_def throwIO_def)

lemma preserves_onRuns:
  assumes "\<And>r r'. Q r \<Longrightarrow> f r = Inr r' \<Longrightarrow> Q r'"
  shows "preserves (invW Q S) (onRuns faults s f)"
  using assms
  by (auto simp: preserves_def invW_def onRuns_def split: sum.splits)

lemma stableR_updateStep:
  assumes "stableR rid Q" and "Q r" and "updateStep now rid n st art r = Inr r'"
  shows "Q r'"
proof -
  from assms(1) [unfolded stableR_def]
  have h: "\<forall>now n st art r r'. Q r \<longrightarrow> updateStep now rid n st art r = Inr r' \<longrightarrow> Q r'"
    by (rule conjunct1)
  show ?thesis by (rule h [rule_format, OF assms(2) assms(3)])
qed

lemma stableR_completeRun:
  assumes "stableR rid Q" and "Q r" and "completeRun now rid res r = Inr r'"
  shows "Q r'"
proof -
  from assms(1) [unfolded stableR_def]
  have h: "\<forall>now res r r'. Q r \<longrightarrow> completeRun now rid res r = Inr r' \<longrightarrow> Q r'"
    by (rule conjunct2 [THEN conjunct1])
  show ?thesis by (rule h [rule_format, OF assms(2) assms(3)])
qed

lemma stableR_writeSources:
  assumes "stableR rid Q" and "Q r" and "writeArtifact rid ''sources.json'' c r = Inr r'"
  shows "Q r'"
proof -
  from assms(1) [unfolded stableR_def]
  have h: "\<forall>c r r'. Q r \<longrightarrow> writeArtifact rid ''sources.json'' c r = Inr r' \<longrightarrow> Q r'"
    by (rule conjunct2 [THEN conjunct2, THEN conjunct1])
  show ?thesis by (rule h [rule_format, OF assms(2) assms(3)])
qed

lemma stableR_writeEcho:
  assumes "stableR rid Q" and "Q r" and "writeArtifact rid ''echo.md'' c r = Inr r'"
  shows "Q r'"
proof -
  from assms(1) [unfolded stableR_def]
  have h: "\<forall>c r r'. Q r \<longrightarrow> writeArtifact rid ''echo.md'' c r = Inr r' \<longrightarrow> Q r'"
    by (rule conjunct2 [THEN conjunct2, THEN conjunct2])
  show ?thesis by (rule h [rule_format, OF assms(2) assms(3)])
qed

lemma preserves_updateStep:
  assumes "stableR rid Q"
  shows "preserves (invW Q S) (onRuns faults s (updateStep now rid n st art))"
  by (rule preserves_onRuns) (rule stableR_updateStep [OF assms])

lemma preserves_completeRun:
  assumes "stableR rid Q"
  shows "preserves (invW Q S) (onRuns faults s (completeRun now rid res))"
  by (rule preserves_onRuns) (rule stableR_completeRun [OF assms])

lemma preserves_writeSources:
  assumes "stableR rid Q"
  shows "preserves (invW Q S) (writeArtifactOpt faults s rid ''sources.json'' c)"
proof (cases c)
  case None
  then show ?thesis by (simp add: writeArtifactOpt_def preserves_throwIO)
next
  case (Some v)
  have "preserves (invW Q S) (onRuns faults s (writeArtifact rid ''sources.json'' v))"
    by (rule preserves_onRuns) (rule stableR_writeSources [OF assms])
  with Some show ?thesis by (simp add: writeArtifactOpt_def)
qed

lemma preserves_writeEcho:
  assumes "stableR rid Q"
  shows "preserves (invW Q S) (writeArtifactOpt faults s rid ''echo.md'' c)"
proof (cases c)
  case None
  then show ?thesis by (simp add: writeArtifactOpt_def preserves_throwIO)
next
  case (Some v)
  have "preserves (invW Q S) (onRuns faults s (writeArtifact rid ''echo.md'' v))"
    by (rule preserves_onRuns) (rule stableR_writeEcho [OF assms])
  with Some show ?thesis by (simp add: writeArtifactOpt_def)
qed

lemma preserves_writeEchoRefIO: "preserves (invW Q S) (writeEchoRefIO faults d)"
  by (auto simp: preserves_def invW_def writeEchoRefIO_def split: option.splits)

lemma preserves_schedulePoll: "preserves (invW Q S) (schedulePoll b e rid)"
  by (simp add: preserves_def invW_def schedulePoll_def)

lemma preserves_lookupAuth: "preserves (invW Q S) (lookupAuth faults lc e)"
  by (auto simp: preserves_def invW_def lookupAuth_def split: option.splits)

lemma preserves_engineFailed:
  assumes "stableR rid Q"
  shows "preserves (invW Q S) (engineFailed faults clock rid st txt)"
  unfolding engineFailed_def seqIO.simps
  by (intro preserves_bindIO preserves_returnIO preserves_updateStep [OF assms]
        preserves_completeRun [OF assms])

lemma preserves_stageArtifacts:
  assumes "stableR rid Q"
  shows "preserves (invW Q S) (stageArtifacts faults clock rid d sp)"
  unfolding stageArtifacts_def seqIO.simps
  by (intro preserves_bindIO preserves_returnIO preserves_updateStep [OF assms]
        preserves_completeRun [OF assms] preserves_writeSources [OF assms]
        preserves_writeEcho [OF assms] preserves_writeEchoRefIO preserves_schedulePoll)

lemma preserves_fetch: "preserves (invW Q (\<lambda>xs. True)) (fetch engine req)"
  by (simp add: preserves_def invW_def fetch_def)

lemma preserves_afterReply:
  assumes "stableR rid Q"
  shows "preserves (invW Q S)
           (case res of
              FetchThrows m \<Rightarrow> throwIO (FetchError m)
            | NotOk st txt \<Rightarrow> engineFailed faults clock rid st txt
            | NotOkNoText st m \<Rightarrow> throwIO (FetchError m)
            | OkNoJson m \<Rightarrow> throwIO SyntaxError
            | OkData d \<Rightarrow>
                bindIO (stageArtifacts faults clock rid d True) (\<lambda>_.
                  case d_tags d of
                    None \<Rightarrow> throwIO (TypeError ''Cannot read properties of undefined'')
                  | Some tags \<Rightarrow>
                      (case d_sources d of
                         None \<Rightarrow> throwIO (TypeError ''Cannot read properties of undefined'')
                       | Some srcs \<Rightarrow> returnIO (Created d rid))))"
proof (cases res)
  case (OkData d)
  have "preserves (invW Q S)
          (case d_tags d of
             None \<Rightarrow> throwIO (TypeError ''Cannot read properties of undefined'')
           | Some tags \<Rightarrow>
               (case d_sources d of
                  None \<Rightarrow> throwIO (TypeError ''Cannot read properties of undefined'')
                | Some srcs \<Rightarrow> returnIO (Created d rid)))"
    by (simp add: preserves_throwIO preserves_returnIO split: option.splits)
  with OkData show ?thesis
    by (simp add: preserves_bindIO preserves_stageArtifacts [OF assms])
qed (simp_all add: preserves_throwIO preserves_engineFailed [OF assms])

lemma preserves_echoTry:
  assumes "stableR rid Q"
  shows "preserves (invW Q (\<lambda>xs. True)) (echoTry faults clock lc rid args engine)"
  unfolding echoTry_def
  by (intro preserves_bindIO preserves_lookupAuth preserves_fetch preserves_afterReply [OF assms])

section \<open>The handler of loretech_echo: exceptions\<close>

text \<open>
  C6, as stated, fails. With the keys configured, when writing \<^verbatim>\<open>context.json\<close> in
  step 1 fails (the statements of step 1 stand before the \<^verbatim>\<open>try\<close> block), the
  handler throws to its caller. It also throws when the engine call fails and the
  \<^verbatim>\<open>completeRun\<close> of the \<^verbatim>\<open>catch\<close> block fails in turn.
\<close>

theorem echo_throws_counterexample:
  "fst (loretech_echo (faultAt WriteContext) (\<lambda>s. ''t'') (\<lambda>a b. 0) ''r1'' env_ok args_A
          (\<lambda>req. OkData data_ok) world_empty) = Thrown (IOError ''storage failure'')
   \<and> fst (loretech_echo (faultAt CompleteCaught) (\<lambda>s. ''t'') (\<lambda>a b. 0) ''r1'' env_ok args_A
          (\<lambda>req. FetchThrows ''timeout'') world_empty) = Thrown (IOError ''storage failure'')"
  by code_simp

lemma captureContext_ok:
  assumes "\<not> faults CreateRun" "\<not> faults CtxRunning" "\<not> faults WriteContext"
    "\<not> faults CtxCompleted" "\<not> faults SrcRunning"
  shows "\<exists>w1. captureContext faults clock rid ctx w = (Inr (), w1)
            \<and> hasMeta rid (w_runs w1)
            \<and> readArtifact (w_runs w1) rid ''context.json'' = Some (ContextJson ctx)
            \<and> w_sent w1 = w_sent w"
  using assms
  by (simp add: captureContext_def io_defs createRun_def updateStep_def writeArtifact_def
       writeMeta_def writeFileSync_def readMeta_def readArtifact_def hasMeta_def bindE_def
       mkdirSync_apply map_of_put_file
       initialMeta_def STEPS_def touchStep_def Let_def truthy_opt_def truthy_def
       split: option.splits)

lemma preservesD: "preserves P m \<Longrightarrow> P w \<Longrightarrow> m w = (r, w') \<Longrightarrow> P w'"
  by (auto simp: preserves_def)

lemma tryCatch_caught:
  assumes nf: "\<not> faults CompleteCaught"
    and hm: "hasMeta rid (w_runs w1)"
    and pr: "preserves (invW (hasMeta rid) (\<lambda>xs. True)) body"
    and thrown: "body w1 = (Inl e, w2)"
  shows "\<exists>r3 m3. completeRun (clock CompleteCaught) rid
                   \<lparr> res_echoId = None, res_error = Some (message e) \<rparr> (w_runs w2) = Inr r3
         \<and> tryCatch faults clock rid body w1 = (Returned (Failure (message e)), w2\<lparr> w_runs := r3 \<rparr>)
         \<and> readMeta r3 rid = Inr (Some m3)
         \<and> runStatus m3 = (if message e \<noteq> [] then RunFailed else RunCompleted)
         \<and> run_error m3 = (if message e \<noteq> [] then Some (message e) else run_error m3)"
proof -
  from hm have "invW (hasMeta rid) (\<lambda>xs. True) w1" by (simp add: invW_def)
  from preservesD [OF pr this thrown] have "hasMeta rid (w_runs w2)" by (simp add: invW_def)
  then obtain m2 where m2: "readMeta (w_runs w2) rid = Inr (Some m2)"
    by (auto simp: hasMeta_iff)
  from completeRun_existing [OF m2, of "clock CompleteCaught" "\<lparr> res_echoId = None, res_error = Some (message e) \<rparr>"]
  obtain r3 where c: "completeRun (clock CompleteCaught) rid
                   \<lparr> res_echoId = None, res_error = Some (message e) \<rparr> (w_runs w2) = Inr r3"
    and r: "readMeta r3 rid = Inr (Some (finishMeta (clock CompleteCaught)
                   \<lparr> res_echoId = None, res_error = Some (message e) \<rparr> m2))"
    by blast
  have t: "tryCatch faults clock rid body w1 = (Returned (Failure (message e)), w2\<lparr> w_runs := r3 \<rparr>)"
    using nf thrown c by (simp add: tryCatch_def onRuns_def)
  show ?thesis
    using c t r by (auto simp: finishMeta_fields truthy_opt_def truthy_def)
qed

lemma tryCatch_returned:
  "body w1 = (Inr r, w2) \<Longrightarrow> tryCatch faults clock rid body w1 = (Returned r, w2)"
  by (simp add: tryCatch_def)

text \<open>
  C6, amended. Provided that reading the environment, the statements of step 1
  (\<^verbatim>\<open>createRun\<close>, the two updates of the context step, writing \<^verbatim>\<open>context.json\<close>,
  setting the sources step to running) and the \<^verbatim>\<open>completeRun\<close> of the \<^verbatim>\<open>catch\<close>
  block meet no storage failure, then for every input, every behaviour of the engine
  and every storage failure inside the \<^verbatim>\<open>try\<close> block the handler returns a result
  and does not throw. When the keys are present, step 1 succeeds, and any exception
  \<open>e\<close> of the \<^verbatim>\<open>try\<close> block is caught: the call
  \<^verbatim>\<open>completeRun(runId, {error: message})\<close> succeeds on the world the exception left,
  the handler returns the error result with that message, and the record of the run
  is failed with that error when the message is not empty (with an empty message
  \<^verbatim>\<open>completeRun\<close> marks the run completed).
\<close>

theorem echo_returns_result:
  assumes "\<not> faults LoadEnv" "\<not> faults CreateRun" "\<not> faults CtxRunning" "\<not> faults WriteContext"
    "\<not> faults CtxCompleted" "\<not> faults SrcRunning" "\<not> faults CompleteCaught"
  shows "(\<exists>r w'. loretech_echo faults clock lc rid env args engine w = (Returned r, w'))
       \<and> (keysPresent env \<longrightarrow>
            (\<exists>w1. captureContext faults clock rid (contextArtifact args) w = (Inr (), w1)
              \<and> (\<forall>e w2. echoTry faults clock lc rid args engine w1 = (Inl e, w2) \<longrightarrow>
                   (\<exists>r3 m3.
                      completeRun (clock CompleteCaught) rid
                        \<lparr> res_echoId = None, res_error = Some (message e) \<rparr> (w_runs w2) = Inr r3
                    \<and> loretech_echo faults clock lc rid env args engine w
                        = (Returned (Failure (message e)), w2\<lparr> w_runs := r3 \<rparr>)
                    \<and> isError (Failure (message e))
                    \<and> readMeta r3 rid = Inr (Some m3)
                    \<and> runStatus m3 = (if message e \<noteq> [] then RunFailed else RunCompleted)
                    \<and> run_error m3 = (if message e \<noteq> [] then Some (message e) else run_error m3)))))"
proof (cases "keysPresent env")
  case False
  with assms(1) show ?thesis by (simp add: loretech_echo_def)
next
  case True
  from captureContext_ok [OF assms(2-6), of clock rid "contextArtifact args" w]
  obtain w1 where cap: "captureContext faults clock rid (contextArtifact args) w = (Inr (), w1)"
    and hm: "hasMeta rid (w_runs w1)" by blast
  let ?body = "echoTry faults clock lc rid args engine"
  have pr: "preserves (invW (hasMeta rid) (\<lambda>xs. True)) ?body"
    by (rule preserves_echoTry [OF stableR_hasMeta])
  have main: "loretech_echo faults clock lc rid env args engine w = tryCatch faults clock rid ?body w1"
    using True assms(1) cap by (simp add: loretech_echo_def)
  have caught: "\<exists>r3 m3.
        completeRun (clock CompleteCaught) rid
          \<lparr> res_echoId = None, res_error = Some (message e) \<rparr> (w_runs w2) = Inr r3
      \<and> loretech_echo faults clock lc rid env args engine w
          = (Returned (Failure (message e)), w2\<lparr> w_runs := r3 \<rparr>)
      \<and> isError (Failure (message e))
      \<and> readMeta r3 rid = Inr (Some m3)
      \<and> runStatus m3 = (if message e \<noteq> [] then RunFailed else RunCompleted)
      \<and> run_error m3 = (if message e \<noteq> [] then Some (message e) else run_error m3)"
    if "?body w1 = (Inl e, w2)" for e w2
    using tryCatch_caught [where faults = faults and rid = rid and ?w1.0 = w1 and body = "?body"
        and e = e and ?w2.0 = w2 and clock = clock, OF assms(7) hm pr that] main
    by auto
  have ret: "\<exists>r w'. loretech_echo faults clock lc rid env args engine w = (Returned r, w')"
  proof (cases "?body w1")
    case (Pair res w2)
    show ?thesis
    proof (cases res)
      case (Inl e)
      with Pair caught [of e w2] show ?thesis by blast
    next
      case (Inr r)
      with Pair main tryCatch_returned [of ?body w1 r w2] show ?thesis by simp
    qed
  qed
  from ret cap caught show ?thesis by blast
qed


text \<open>
  The hypotheses of C6 hold when the one storage failure is the update that completes
  the sources step, inside the \<^verbatim>\<open>try\<close> block: the handler returns the failure.
\<close>

theorem echo_returns_result_witness:
  "\<not> faultAt SrcCompleted LoadEnv \<and> \<not> faultAt SrcCompleted CreateRun
   \<and> \<not> faultAt SrcCompleted CtxRunning \<and> \<not> faultAt SrcCompleted WriteContext
   \<and> \<not> faultAt SrcCompleted CtxCompleted \<and> \<not> faultAt SrcCompleted SrcRunning
   \<and> \<not> faultAt SrcCompleted CompleteCaught
   \<and> (\<exists>r w'. loretech_echo (faultAt SrcCompleted) (\<lambda>s. ''t'') (\<lambda>a b. 0) ''r1'' env_ok args_A
                  (\<lambda>req. OkData data_ok) world_empty = (Returned r, w'))
   \<and> fst (loretech_echo (faultAt SrcCompleted) (\<lambda>s. ''t'') (\<lambda>a b. 0) ''r1'' env_ok args_A
             (\<lambda>req. OkData data_ok) world_empty) = Returned (Failure ''storage failure'')"
proof -
  have nf: "\<not> faultAt SrcCompleted LoadEnv" "\<not> faultAt SrcCompleted CreateRun"
    "\<not> faultAt SrcCompleted CtxRunning" "\<not> faultAt SrcCompleted WriteContext"
    "\<not> faultAt SrcCompleted CtxCompleted" "\<not> faultAt SrcCompleted SrcRunning"
    "\<not> faultAt SrcCompleted CompleteCaught"
    by (simp_all add: faultAt_def)
  from echo_returns_result [OF nf, of "\<lambda>s. ''t''" "\<lambda>a b. 0" "''r1''" env_ok args_A
      "\<lambda>req. OkData data_ok" world_empty]
  have r: "\<exists>r w'. loretech_echo (faultAt SrcCompleted) (\<lambda>s. ''t'') (\<lambda>a b. 0) ''r1'' env_ok args_A
                  (\<lambda>req. OkData data_ok) world_empty = (Returned r, w')"
    by (rule conjunct1)
  have v: "fst (loretech_echo (faultAt SrcCompleted) (\<lambda>s. ''t'') (\<lambda>a b. 0) ''r1'' env_ok args_A
             (\<lambda>req. OkData data_ok) world_empty) = Returned (Failure ''storage failure'')"
    by code_simp
  from nf r v show ?thesis by blast
qed

section \<open>The handler of loretech_rerun: the input of the new run\<close>

lemma preserves_rerunReply:
  assumes "stableR rid Q"
  shows "preserves (invW Q S)
           (case res of
              FetchThrows m \<Rightarrow> throwIO (FetchError m)
            | NotOk st txt \<Rightarrow> engineFailed faults clock rid st txt
            | NotOkNoText st m \<Rightarrow> throwIO (FetchError m)
            | OkNoJson m \<Rightarrow> throwIO SyntaxError
            | OkData d \<Rightarrow>
                bindIO (stageArtifacts faults clock rid d False) (\<lambda>_. returnIO (Created d rid)))"
  by (cases res)
     (simp_all add: preserves_throwIO preserves_engineFailed [OF assms] preserves_bindIO
        preserves_stageArtifacts [OF assms] preserves_returnIO)

lemma rerunTry_inv:
  assumes "stableR rid Q" and "Q (w_runs w1)"
  shows "invW Q (\<lambda>xs. xs = w_sent w1 @ [rerunBody args orig])
           (snd (rerunTry faults clock rid args orig engine w1))"
proof -
  let ?req = "rerunBody args orig"
  let ?w = "w1\<lparr> w_sent := w_sent w1 @ [?req] \<rparr>"
  let ?rest = "case engine ?req of
              FetchThrows m \<Rightarrow> throwIO (FetchError m)
            | NotOk st txt \<Rightarrow> engineFailed faults clock rid st txt
            | NotOkNoText st m \<Rightarrow> throwIO (FetchError m)
            | OkNoJson m \<Rightarrow> throwIO SyntaxError
            | OkData d \<Rightarrow>
                bindIO (stageArtifacts faults clock rid d False) (\<lambda>_. returnIO (Created d rid))"
  have e: "rerunTry faults clock rid args orig engine w1 = ?rest ?w"
    by (simp add: rerunTry_def bindIO_def fetch_def)
  have "invW Q (\<lambda>xs. xs = w_sent w1 @ [?req]) ?w"
    using assms(2) by (simp add: invW_def)
  with preserves_rerunReply [where S = "\<lambda>xs. xs = w_sent w1 @ [?req]" and res = "engine ?req"
      and faults = faults and clock = clock, OF assms(1)]
  have "invW Q (\<lambda>xs. xs = w_sent w1 @ [?req]) (snd (?rest ?w))"
    by (simp add: preserves_def)
  with e show ?thesis by simp
qed

lemma tryCatch_inv:
  assumes "stableR rid Q" and "invW Q S (snd (body w1))"
  shows "invW Q S (snd (tryCatch faults clock rid body w1))"
proof (cases "body w1")
  case (Pair res w2)
  with assms(2) have i: "invW Q S w2" by simp
  show ?thesis
  proof (cases res)
    case (Inr r)
    with Pair i show ?thesis by (simp add: tryCatch_def)
  next
    case (Inl e)
    let ?c = "onRuns faults CompleteCaught
                (completeRun (clock CompleteCaught) rid
                   \<lparr> res_echoId = None, res_error = Some (message e) \<rparr>)"
    from preserves_completeRun [where S = S and faults = faults and s = CompleteCaught
        and now = "clock CompleteCaught"
        and res = "\<lparr> res_echoId = None, res_error = Some (message e) \<rparr>", OF assms(1)] i
    have "invW Q S (snd (?c w2))" by (simp add: preserves_def)
    moreover have "snd (tryCatch faults clock rid body w1) = snd (?c w2)"
      using Pair Inl by (cases "?c w2") (auto simp: tryCatch_def split: sum.splits)
    ultimately show ?thesis by simp
  qed
qed

text \<open>
  What a replay sends and stores, in general: for a source run with a record and a
  stored context object \<open>orig\<close>, with the keys configured and no storage failure
  before the \<^verbatim>\<open>try\<close> block, exactly one request goes to the engine. Its context is
  the override when that is taken and the stored context otherwise, its depth is the
  stored depth, and each of focus, intent, signals, scope and source is the stored
  value when that is present and not empty. The context object written for the new
  run holds the same context, the stored depth and focus and the two replay fields;
  its fields intent, signals, scope and source are absent whatever \<open>orig\<close> holds.
\<close>

lemma rerun_request_and_artifact:
  assumes src: "readMeta (w_runs w) (r_runId args) = Inr (Some srcMeta)"
    and art: "readArtifact (w_runs w) (r_runId args) ''context.json'' = Some (ContextJson orig)"
    and keys: "keysPresent env"
    and nf: "\<not> faults ReadSource" "\<not> faults LoadEnv" "\<not> faults CreateRun" "\<not> faults CtxRunning"
      "\<not> faults WriteContext" "\<not> faults CtxCompleted" "\<not> faults SrcRunning"
  shows "\<exists>out w' req new.
           loretech_rerun faults clock jsonParse rid env args engine w = (out, w')
         \<and> w_sent w' = w_sent w @ [req]
         \<and> b_context req = (if overrideTaken args then r_overrideContext args else c_context orig)
         \<and> b_depth req = c_depth orig
         \<and> b_focus req = (if truthy_opt (c_focus orig) then c_focus orig else None)
         \<and> b_intent req = (if truthy_opt (c_intent orig) then c_intent orig else None)
         \<and> b_signals req = (if truthy_opt (c_signals orig) then c_signals orig else None)
         \<and> b_scope req = (if truthy_opt (c_scope orig) then c_scope orig else None)
         \<and> b_source req = (if truthy_opt (c_source orig) then c_source orig else None)
         \<and> readArtifact (w_runs w') rid ''context.json'' = Some (ContextJson new)
         \<and> c_context new = b_context req
         \<and> c_depth new = c_depth orig
         \<and> c_focus new = c_focus orig
         \<and> c_intent new = None \<and> c_signals new = None \<and> c_scope new = None \<and> c_source new = None
         \<and> c_replayedFrom new = Some (r_runId args)
         \<and> c_replayedStep new = Some (r_fromStep args)"
proof -
  let ?new = "rerunArtifact args orig"
  let ?req = "rerunBody args orig"
  let ?Q = "\<lambda>r. readArtifact r rid ''context.json'' = Some (ContextJson ?new)"
  from captureContext_ok [OF nf(3-7), of clock rid ?new w]
  obtain w1 where cap: "captureContext faults clock rid ?new w = (Inr (), w1)"
    and q: "?Q (w_runs w1)" and sent: "w_sent w1 = w_sent w" by blast
  let ?body = "rerunTry faults clock rid args orig engine"
  have main: "loretech_rerun faults clock jsonParse rid env args engine w
                = tryCatch faults clock rid ?body w1"
    using src art keys nf(1,2) cap
    by (simp add: loretech_rerun_def rerunFrom_def parseContext_def)
  have st: "stableR rid ?Q" by (rule stableR_context)
  have "invW ?Q (\<lambda>xs. xs = w_sent w1 @ [?req]) (snd (?body w1))"
    by (rule rerunTry_inv [where Q = "?Q", OF st q])
  then have fin: "invW ?Q (\<lambda>xs. xs = w_sent w1 @ [?req]) (snd (tryCatch faults clock rid ?body w1))"
    by (rule tryCatch_inv [where Q = "?Q" and body = "?body", OF st])
  obtain out w' where o: "loretech_rerun faults clock jsonParse rid env args engine w = (out, w')"
    by (cases "loretech_rerun faults clock jsonParse rid env args engine w")
  from o have "snd (tryCatch faults clock rid ?body w1) = w'"
    unfolding main by simp
  with fin sent have a: "readArtifact (w_runs w') rid ''context.json'' = Some (ContextJson ?new)"
    and b: "w_sent w' = w_sent w @ [?req]"
    by (simp_all add: invW_def)
  show ?thesis
    using o a b
    by (intro exI [of _ out] exI [of _ w'] exI [of _ ?req] exI [of _ ?new])
       (simp add: rerunBody_def rerunArtifact_def rerunContext_def keep_def)
qed

text \<open>
  A \<^verbatim>\<open>context.json\<close> that holds JSON of another shape, here the array \<^verbatim>\<open>[1]\<close>, is
  parsed without an error and has none of the fields: the replay runs, and its
  request has neither context nor depth.
\<close>

lemma rerun_of_foreign_json:
  "last (w_sent (snd (loretech_rerun (\<lambda>s. False) (\<lambda>s. ''t'') (\<lambda>txt. Inr (Some noFields)) ''r2''
                        env_ok \<lparr> r_runId = ''r1'', r_fromStep = ''sources'', r_overrideContext = None \<rparr>
                        (\<lambda>req. OkData data_ok)
                        (world_failed\<lparr> w_runs := orEmpty (writeArtifact ''r1'' ''context.json''
                                                             (Text ''[1]'') (w_runs world_failed)) \<rparr>))))
     = \<lparr> b_context = None, b_depth = None, b_focus = None, b_intent = None, b_signals = None,
         b_scope = None, b_source = None, b_echoId = None, b_model = None, authorization = None \<rparr>"
  by code_simp

text \<open>
  C8. The code at a replay of a run that stored auxiliary fields. The run \<open>r1\<close> was
  created by \<^verbatim>\<open>loretech_echo\<close> with the intent \<^verbatim>\<open>verify\<close> and the scope \<^verbatim>\<open>proj\<close>, and
  its \<^verbatim>\<open>context.json\<close> holds both. The replay of \<open>r1\<close> from the context step with
  the override \<open>B\<close> sends the engine a request with the new context and with depth,
  intent and scope as stored. But the context object it writes for the new run \<open>r2\<close>
  holds the context, the depth and the replay fields only: the intent and the scope
  are not carried into the stored input of the new run. A replay of \<open>r2\<close> therefore
  sends a request without intent and scope.
\<close>

theorem rerun_context_artifact_drops_fields:
  "storedContext (w_runs world_failed) ''r1'' = Some stored_aux
   \<and> last (w_sent world_replayed)
       = \<lparr> b_context = Some ''B'', b_depth = Some ''standard'', b_focus = None,
           b_intent = Some ''verify'', b_signals = None, b_scope = Some ''proj'',
           b_source = None, b_echoId = None, b_model = None, authorization = None \<rparr>
   \<and> storedContext (w_runs world_replayed) ''r2''
       = Some \<lparr> c_context = Some ''B'', c_depth = Some ''standard'', c_focus = None,
                c_intent = None, c_signals = None, c_scope = None, c_source = None,
                c_replayedFrom = Some ''r1'', c_replayedStep = Some ''context'' \<rparr>
   \<and> last (w_sent (snd (loretech_rerun (\<lambda>s. False) (\<lambda>s. ''t'') (\<lambda>txt. Inl SyntaxError) ''r3''
                            env_ok rerun_again (\<lambda>req. OkData data_ok) world_replayed)))
       = \<lparr> b_context = Some ''B'', b_depth = Some ''standard'', b_focus = None,
           b_intent = None, b_signals = None, b_scope = None,
           b_source = None, b_echoId = None, b_model = None, authorization = None \<rparr>"
  by code_simp

section \<open>The background poll: when the step is completed\<close>

lemma find_replace_first_other:
  "name s' = n \<Longrightarrow> (find (\<lambda>s. name s = k) (replace_first n s' ss) = None)
     = (find (\<lambda>s. name s = k) ss = None)"
  by (induction ss) auto

lemma updateStep_found:
  assumes m: "readMeta fs rid = Inr (Some meta)"
    and s: "find (\<lambda>s. name s = n) (steps meta) = Some step"
  shows "\<exists>fs'. updateStep now rid n st art fs = Inr fs'
           \<and> readMeta fs' rid =
               Inr (Some (meta\<lparr> steps := replace_first n (touchStep now st art step) (steps meta) \<rparr>))"
proof -
  let ?meta' = "meta\<lparr> steps := replace_first n (touchStep now st art step) (steps meta) \<rparr>"
  from readMeta_Some_dir [OF m] obtain d where "fs rid = Some d" ..
  from writeMeta_exists [of fs rid d ?meta'] this obtain fs' where w: "writeMeta rid ?meta' fs = Inr fs'"
    by blast
  have "updateStep now rid n st art fs = Inr fs'"
    using m s w by (simp add: updateStep_def bindE_def)
  with readMeta_writeMeta [OF w] show ?thesis by blast
qed

lemma hasWebset_updateStep:
  assumes "hasWebset rid fs" and "updateStep now rid n st art fs = Inr fs'"
  shows "hasWebset rid fs'"
proof -
  from assms(1) obtain meta where m: "readMeta fs rid = Inr (Some meta)"
    and ws: "find (\<lambda>s. name s = ''webset'') (steps meta) \<noteq> None"
    by (auto simp: hasWebset_def split: sum.splits option.splits)
  show ?thesis
  proof (cases "find (\<lambda>s. name s = n) (steps meta)")
    case None
    with m assms(2) have "fs' = fs" by (simp add: updateStep_def bindE_def)
    with assms(1) show ?thesis by simp
  next
    case (Some step)
    from updateStep_found [OF m Some, of now st art] assms(2)
    have r: "readMeta fs' rid =
               Inr (Some (meta\<lparr> steps := replace_first n (touchStep now st art step) (steps meta) \<rparr>))"
      by auto
    have "name (touchStep now st art step) = n"
      using find_name [OF Some] by simp
    from find_replace_first_other [OF this, of "''webset''" "steps meta"] ws
    show ?thesis by (simp add: hasWebset_def r)
  qed
qed

lemma hasWebset_completes:
  assumes "hasWebset rid fs"
  shows "\<exists>fs'. updateStep now rid ''webset'' Completed None fs = Inr fs'
           \<and> hasWebset rid fs' \<and> stepStatus fs' rid ''webset'' = Some Completed"
proof -
  from assms obtain meta step where m: "readMeta fs rid = Inr (Some meta)"
    and s: "find (\<lambda>s. name s = ''webset'') (steps meta) = Some step"
    by (auto simp: hasWebset_def split: sum.splits option.splits)
  from updateStep_found [OF m s, of now Completed None]
  obtain fs' where u: "updateStep now rid ''webset'' Completed None fs = Inr fs'"
    and r: "readMeta fs' rid =
              Inr (Some (meta\<lparr> steps := replace_first ''webset'' (touchStep now Completed None step)
                                          (steps meta) \<rparr>))"
    by blast
  have "name (touchStep now Completed None step) = ''webset''"
    using find_name [OF s] by simp
  from find_replace_first [OF s this]
  have "stepStatus fs' rid ''webset'' = Some Completed"
    by (simp add: stepStatus_def r)
  with u hasWebset_updateStep [OF assms u] show ?thesis by blast
qed

lemma hasWebset_dataset:
  assumes "hasWebset rid fs" and "writeArtifact rid ''dataset.json'' c fs = Inr fs'"
  shows "hasWebset rid fs'"
  using assms
  by (simp add: hasWebset_def readMeta_readArtifact writeArtifact_def readArtifact_writeFileSync)

lemma hasWebset_dir: "hasWebset rid fs \<Longrightarrow> \<exists>d. fs rid = Some d"
  by (auto simp: hasWebset_def dest: readMeta_Some_dir split: sum.splits option.splits)

lemma pollWrite_result:
  assumes "hasWebset rid (w_runs w)" and "pollWrite ds now echoId rid w = (b, w')"
  shows "hasWebset rid (w_runs w') \<and> stepStatus (w_runs w') rid ''webset'' = Some Completed"
proof -
  from hasWebset_dir [OF assms(1)] obtain d where d: "w_runs w rid = Some d" ..
  then obtain r1 where w1: "writeArtifact rid ''dataset.json'' (Text (jsonArray ds)) (w_runs w) = Inr r1"
    by (simp add: writeArtifact_def writeFileSync_def)
  from hasWebset_dataset [OF assms(1) w1] have h1: "hasWebset rid r1" .
  from hasWebset_completes [OF h1, of now]
  obtain r2 where u: "updateStep now rid ''webset'' Completed None r1 = Inr r2"
    and h2: "hasWebset rid r2" and c: "stepStatus r2 rid ''webset'' = Some Completed"
    by blast
  from assms(2) w1 u have "w_runs w' = r2"
    by (auto simp: pollWrite_def split: option.splits)
  with h2 c show ?thesis by simp
qed

lemma pollTry_result:
  assumes "hasWebset rid (w_runs w)" and "reply \<noteq> PollNotOk"
    and "pollTry reply now echoId rid w = (b, w')"
  shows "hasWebset rid (w_runs w')
       \<and> (b \<longrightarrow> stepStatus (w_runs w') rid ''webset'' = Some Completed)"
proof (cases reply)
  case (PollData st ds)
  show ?thesis
  proof (cases "\<exists>x xs. ds = Some (x # xs) \<and> st = Some ''completed''")
    case True
    then obtain x xs where "ds = Some (x # xs)" "st = Some ''completed''" by blast
    with PollData assms(3) have "pollWrite (x # xs) now echoId rid w = (b, w')"
      by (simp add: pollTry_def)
    from pollWrite_result [OF assms(1) this] show ?thesis by simp
  next
    case False
    with PollData assms(3) have "b = False \<and> w' = w"
      by (auto simp: pollTry_def split: option.splits list.splits if_splits)
    with assms(1) show ?thesis by simp
  qed
qed (use assms in \<open>auto simp: pollTry_def\<close>)

text \<open>
  The return at a non-success reply is the only way for the loop to leave the step
  running: when the run has a record with a webset step and no reply is a
  non-success response, the step is completed when the loop has ended, whatever
  else the replies are and whatever the counter was.
\<close>

lemma poll_completes_unless_not_ok:
  assumes "\<forall>n. replies n \<noteq> PollNotOk" and "hasWebset rid (w_runs w)"
  shows "stepStatus (w_runs (poll replies clock echoId rid attempts w)) rid ''webset'' = Some Completed"
  using assms
proof (induction replies clock echoId rid attempts w rule: poll.induct)
  case (1 replies clock echoId rid attempts w)
  obtain b w' where t: "pollTry (replies (attempts + 1)) (clock (attempts + 1)) echoId rid w = (b, w')"
    by (cases "pollTry (replies (attempts + 1)) (clock (attempts + 1)) echoId rid w")
  from "1.prems"(1) have "replies (attempts + 1) \<noteq> PollNotOk" by simp
  from pollTry_result [OF "1.prems"(2) this t]
  have h: "hasWebset rid (w_runs w')"
    and c: "b \<longrightarrow> stepStatus (w_runs w') rid ''webset'' = Some Completed" by simp_all
  show ?case
  proof (cases b)
    case True
    with t c show ?thesis by (simp add: poll.simps [of replies clock echoId rid attempts w])
  next
    case False
    show ?thesis
    proof (cases "attempts + 1 < MAX_ATTEMPTS")
      case True
      with "1.IH" [OF t [symmetric] _ _ "1.prems"(1) h] False t show ?thesis
        by (simp add: poll.simps [of replies clock echoId rid attempts w])
    next
      case nomore: False
      from hasWebset_completes [OF h, of "clock (attempts + 1)"]
      obtain r where "updateStep (clock (attempts + 1)) rid ''webset'' Completed None (w_runs w') = Inr r"
        and "stepStatus r rid ''webset'' = Some Completed" by blast
      with False nomore t show ?thesis
        by (simp add: poll.simps [of replies clock echoId rid attempts w])
    qed
  qed
qed

end
